theory Spec2Isabelle
  imports Complex_Main "HOL-Library.Char_ord" "HOL-Library.List_Lexorder" "HOL-Library.Multiset"
begin


section \<open>Python values\<close>

text \<open>
  The values that \<open>json.load\<close> produces, which are also the values the fields of an entry
  can hold: \<open>None\<close>, booleans, integers, floats, strings, lists and dicts. A dict lists each
  key once. Strings are compared as Python compares them, lexicographically by character
  code (the order of \<open>List_Lexorder\<close> over \<open>Char_ord\<close>).
\<close>

datatype json =
  JNull
| JBool bool
| JInt int
| JFloat real
| JStr string
| JList "json list"
| JDict "(string \<times> json) list"

datatype error =
  ImportError | AttributeError | IndexError | ValueError | OverflowError | SystemExit
| TypeError | OSError

text \<open>Truthiness of a value, and of an \<open>Optional[str]\<close> argument.\<close>

fun truthy :: "json \<Rightarrow> bool" where
  "truthy JNull = False"
| "truthy (JBool b) = b"
| "truthy (JInt n) = (n \<noteq> 0)"
| "truthy (JFloat x) = (x \<noteq> 0)"
| "truthy (JStr s) = (s \<noteq> [])"
| "truthy (JList xs) = (xs \<noteq> [])"
| "truthy (JDict d) = (d \<noteq> [])"

definition truthy_str :: "string option \<Rightarrow> bool" where
  "truthy_str x = (case x of None \<Rightarrow> False | Some s \<Rightarrow> s \<noteq> [])"

text \<open>The expression \<open>x or ''\<close>, on a value and on an \<open>Optional[str]\<close>.\<close>

definition or_empty :: "json \<Rightarrow> json" where
  "or_empty x = (if truthy x then x else JStr [])"

definition or_empty_str :: "string option \<Rightarrow> string" where
  "or_empty_str x = (case x of None \<Rightarrow> [] | Some s \<Rightarrow> (if s \<noteq> [] then s else []))"

text \<open>\<open>d.get(key, default)\<close>.\<close>

definition dict_get :: "(string \<times> json) list \<Rightarrow> string \<Rightarrow> json \<Rightarrow> json" where
  "dict_get d k dflt = (case map_of d k of None \<Rightarrow> dflt | Some v \<Rightarrow> v)"


section \<open>String operations\<close>

text \<open>\<open>str.split(sep)\<close> for a one-character separator.\<close>

fun split_on :: "char \<Rightarrow> string \<Rightarrow> string list" where
  "split_on c [] = [[]]"
| "split_on c (x # xs) =
     (if x = c then [] # split_on c xs
      else (case split_on c xs of [] \<Rightarrow> [[x]] | w # ws \<Rightarrow> (x # w) # ws))"

text \<open>
  The characters below 256 for which \<open>str.isspace\<close> holds, which are also those that
  \<open>\s\<close> matches; \<open>str.strip()\<close> removes them from both ends.
\<close>

definition is_space :: "char \<Rightarrow> bool" where
  "is_space c = (of_char c \<in> {9, 10, 11, 12, 13, 28, 29, 30, 31, 32, 133, 160 :: nat})"

definition strip :: "string \<Rightarrow> string" where
  "strip s = rev (dropWhile is_space (rev (dropWhile is_space s)))"

text \<open>\<open>str.strip(chars)\<close> and \<open>str.lstrip(chars)\<close>.\<close>

definition strip_chars :: "string \<Rightarrow> string \<Rightarrow> string" where
  "strip_chars cs s =
     rev (dropWhile (\<lambda>c. c \<in> set cs) (rev (dropWhile (\<lambda>c. c \<in> set cs) s)))"

definition lstrip_chars :: "string \<Rightarrow> string \<Rightarrow> string" where
  "lstrip_chars cs s = dropWhile (\<lambda>c. c \<in> set cs) s"

text \<open>
  \<open>str.lower()\<close> on characters below 256: the ASCII capitals and the Latin-1 capitals
  (192 to 222 except the multiplication sign 215) move up by 32.
\<close>

definition lower_char :: "char \<Rightarrow> char" where
  "lower_char c =
     (let n = (of_char c :: nat)
      in if (65 \<le> n \<and> n \<le> 90) \<or> (192 \<le> n \<and> n \<le> 222 \<and> n \<noteq> 215)
         then char_of (n + 32) else c)"

definition lower :: "string \<Rightarrow> string" where
  "lower s = map lower_char s"

definition is_digit :: "char \<Rightarrow> bool" where
  "is_digit c = (48 \<le> (of_char c :: nat) \<and> (of_char c :: nat) \<le> 57)"

text \<open>\<open>str(n)\<close> for an integer.\<close>

fun str_nat :: "nat \<Rightarrow> string" where
  "str_nat n =
     (if n < 10 then [char_of (48 + n)] else str_nat (n div 10) @ [char_of (48 + n mod 10)])"

definition str_int :: "int \<Rightarrow> string" where
  "str_int i = (if i < 0 then CHR ''-'' # str_nat (nat (- i)) else str_nat (nat i))"


section \<open>Entry model (memory-search-simple.py, MemoryEntry)\<close>

text \<open>
  The dataclass \<open>MemoryEntry\<close>. Python does not check the declared field types: the
  knowledge-graph collector stores what \<open>items.json\<close> holds under \<open>id\<close>, \<open>fact\<close>,
  \<open>timestamp\<close> and \<open>category\<close>, so these four fields are values; \<open>source\<close> and \<open>layer\<close> are
  always strings, and \<open>entity\<close> is a string or \<open>None\<close>.
\<close>

record entry =
  e_id :: json
  e_content :: json
  e_source :: string
  e_layer :: string
  e_timestamp :: json
  e_entity :: "string option"
  e_category :: json

text \<open>
  \<open>MemoryEntry.generate_id\<close>: the first 12 hexadecimal characters of the MD5 digest of
  \<open>f"{source}:{content[:200]}"\<close>. \<open>hashlib.md5(...).hexdigest()\<close> is library code and is
  the parameter \<open>md5_hex\<close>.
\<close>

definition generate_id :: "(string \<Rightarrow> string) \<Rightarrow> string \<Rightarrow> string \<Rightarrow> string" where
  "generate_id md5_hex content source = take 12 (md5_hex (source @ '':'' @ take 200 content))"


section \<open>Source collectors (SimpleMemoryIndexer)\<close>

text \<open>
  What a build reads. For a file that may be missing: absent, present but raising on
  \<open>read_text\<close> or \<open>json.load\<close>, or its content. A \<open>*.md\<close> file of the memory directory is
  given by its stem and its text (\<open>None\<close> when it is a directory or cannot be read); an
  entity directory by its name, its \<open>summary.md\<close> and its parsed \<open>items.json\<close>.
\<close>

datatype 'a file_state = Absent | Unreadable | Content 'a

record daily_file =
  df_stem :: string
  df_content :: "string option"

record entity_dir =
  ed_name :: string
  ed_summary :: "string file_state"
  ed_items :: "json file_state"

text \<open>
  The environment of a build: whether scikit-learn can be imported; the library functions
  \<open>TfidfVectorizer(...).fit_transform(documents)\<close> (it may raise),
  \<open>hashlib.md5(s.encode()).hexdigest()\<close> and \<open>str\<close> of a list; and the files under
  \<open>MEMORY_DIR\<close>, the three tacit documents with their paths, the entity directories of each
  area type under \<open>LIFE_AREAS_DIR\<close>, and the \<open>SKILL.md\<close> files under \<open>TOOLS_DIR\<close> with their
  paths. A directory that does not exist has no files.
\<close>

record env =
  has_sklearn :: bool
  fit_transform :: "json list \<Rightarrow> error + (string \<Rightarrow> real list)"
  md5_hex :: "string \<Rightarrow> string"
  list_str :: "json list \<Rightarrow> string"
  memory_path :: string
  memory_files :: "daily_file list"
  tacit_files :: "(string \<times> string file_state) list"
  areas_path :: string
  area_dirs :: "string \<Rightarrow> entity_dir list"
  skill_files :: "(string \<times> string option) list"

text \<open>
  \<open>_split_by_sections\<close>: \<open>re.split(r'\n(?=#{1,3}\s)', content)\<close> cuts at every newline that
  is followed by one to three \<open>#\<close> and then a whitespace character; the parts are stripped
  and the empty ones dropped.
\<close>

definition heading_start :: "string \<Rightarrow> bool" where
  "heading_start s =
     (let n = length (takeWhile (\<lambda>c. c = CHR ''#'') s)
      in 1 \<le> n \<and> n \<le> 3 \<and> n < length s \<and> is_space (s ! n))"

fun re_split :: "string \<Rightarrow> string list" where
  "re_split [] = [[]]"
| "re_split (c # cs) =
     (if c = CHR 0x0A \<and> heading_start cs then [] # re_split cs
      else (case re_split cs of [] \<Rightarrow> [[c]] | p # ps \<Rightarrow> (c # p) # ps))"

definition split_by_sections :: "string \<Rightarrow> string list" where
  "split_by_sections content = filter (\<lambda>p. p \<noteq> []) (map strip (re_split content))"

text \<open>\<open>_extract_date_from_filename\<close>: \<open>re.match(r'(\d{4}-\d{2}-\d{2})', filename)\<close>.\<close>

definition extract_date_from_filename :: "string \<Rightarrow> json" where
  "extract_date_from_filename filename =
     (if 10 \<le> length filename
         \<and> list_all is_digit (take 4 filename) \<and> filename ! 4 = CHR ''-''
         \<and> list_all is_digit (take 2 (drop 5 filename)) \<and> filename ! 7 = CHR ''-''
         \<and> list_all is_digit (take 2 (drop 8 filename))
      then JStr (take 10 filename) else JNull)"

text \<open>
  \<open>_extract_category_from_section\<close>: the first of the first three lines that starts with
  \<open>#\<close>, without its leading \<open>#\<close>, stripped and in lower case.
\<close>

definition extract_category_from_section :: "string \<Rightarrow> json" where
  "extract_category_from_section section =
     (case filter (\<lambda>line. take 1 line = ''#'') (take 3 (split_on (CHR 0x0A) section)) of
        [] \<Rightarrow> JNull
      | line # rest \<Rightarrow> JStr (lower (strip (lstrip_chars ''#'' line))))"

text \<open>\<open>_index_daily_notes\<close>: the files in sorted order, the sections of at least 50 characters.\<close>

definition daily_path :: "env \<Rightarrow> daily_file \<Rightarrow> string" where
  "daily_path ev f = memory_path ev @ ''/'' @ df_stem f @ ''.md''"

definition daily_entry :: "env \<Rightarrow> daily_file \<Rightarrow> string \<Rightarrow> entry" where
  "daily_entry ev f section =
     \<lparr>e_id = JStr (generate_id (md5_hex ev) section (daily_path ev f)),
      e_content = JStr section,
      e_source = daily_path ev f,
      e_layer = ''daily'',
      e_timestamp = extract_date_from_filename (df_stem f @ ''.md''),
      e_entity = None,
      e_category = extract_category_from_section section\<rparr>"

definition index_daily_notes :: "env \<Rightarrow> entry list" where
  "index_daily_notes ev =
     concat (map (\<lambda>f. case df_content f of
                         None \<Rightarrow> []
                       | Some content \<Rightarrow>
                           map (daily_entry ev f)
                             (filter (\<lambda>section. \<not> length (strip section) < 50)
                                (split_by_sections content)))
               (sort_key (\<lambda>f. df_stem f @ ''.md'') (memory_files ev)))"

text \<open>\<open>_index_tacit_knowledge\<close>: the documents that exist, the sections of at least 30 characters.\<close>

definition tacit_entry :: "env \<Rightarrow> string \<Rightarrow> string \<Rightarrow> entry" where
  "tacit_entry ev file_path section =
     \<lparr>e_id = JStr (generate_id (md5_hex ev) section file_path),
      e_content = JStr section,
      e_source = file_path,
      e_layer = ''tacit'',
      e_timestamp = JNull,
      e_entity = None,
      e_category = extract_category_from_section section\<rparr>"

definition index_tacit_knowledge :: "env \<Rightarrow> entry list" where
  "index_tacit_knowledge ev =
     concat (map (\<lambda>(file_path, state). case state of
                         Content content \<Rightarrow>
                           map (tacit_entry ev file_path)
                             (filter (\<lambda>section. \<not> length (strip section) < 30)
                                (split_by_sections content))
                       | _ \<Rightarrow> [])
               (tacit_files ev))"

text \<open>
  \<open>_index_knowledge_graph\<close>. The default of \<open>item.get('id', generate_id(fact_text, ...))\<close>
  is computed before the lookup, for every record: \<open>content[:200]\<close> raises on a number, a
  boolean or a dict, and on a list the f-string formats the sliced list with \<open>str\<close>.
\<close>

definition generate_id_of :: "env \<Rightarrow> json \<Rightarrow> string \<Rightarrow> error + string" where
  "generate_id_of ev fact_text source =
     (case fact_text of
        JStr s \<Rightarrow> Inr (generate_id (md5_hex ev) s source)
      | JList xs \<Rightarrow> Inr (take 12 (md5_hex ev (source @ '':'' @ list_str ev (take 200 xs))))
      | _ \<Rightarrow> Inl TypeError)"

text \<open>
  The loop over the records of one \<open>items.json\<close>. An exception ends the loop for this file
  (the \<open>except\<close> around it prints a warning); the entries appended before it stay.
\<close>

fun kg_items_loop :: "env \<Rightarrow> string \<Rightarrow> string \<Rightarrow> json list \<Rightarrow> entry list \<Rightarrow> entry list" where
  "kg_items_loop ev items_file entity_name [] entries = entries"
| "kg_items_loop ev items_file entity_name (item # rest) entries =
     (case item of
        JDict d \<Rightarrow>
          (let fact_text = dict_get d ''fact'' (JStr []) in
           if \<not> truthy fact_text then kg_items_loop ev items_file entity_name rest entries
           else
             (case generate_id_of ev fact_text items_file of
                Inl err \<Rightarrow> entries
              | Inr generated \<Rightarrow>
                  kg_items_loop ev items_file entity_name rest
                    (entries @
                      [\<lparr>e_id = dict_get d ''id'' (JStr generated),
                        e_content = fact_text,
                        e_source = items_file,
                        e_layer = ''knowledge_graph'',
                        e_timestamp = dict_get d ''timestamp'' JNull,
                        e_entity = Some entity_name,
                        e_category = dict_get d ''category'' (JStr ''fact'')\<rparr>])))
      | _ \<Rightarrow> kg_items_loop ev items_file entity_name rest entries)"

text \<open>
  What \<open>for item in items\<close> iterates after \<open>items = items.get('items', [])\<close> for a dict: the
  elements of a list; the characters of a string and the keys of a dict are strings, which
  the loop skips; anything else is not iterable, and the \<open>except\<close> leaves no entry.
\<close>

definition iterated_items :: "json \<Rightarrow> json list" where
  "iterated_items items =
     (case (case items of JDict d \<Rightarrow> dict_get d ''items'' (JList []) | _ \<Rightarrow> items) of
        JList xs \<Rightarrow> xs
      | JStr s \<Rightarrow> map (\<lambda>c. JStr [c]) s
      | JDict d \<Rightarrow> map (\<lambda>(k, v). JStr k) d
      | _ \<Rightarrow> [])"

definition kg_fact_entries :: "env \<Rightarrow> string \<Rightarrow> string \<Rightarrow> json \<Rightarrow> entry list" where
  "kg_fact_entries ev items_file entity_name items =
     kg_items_loop ev items_file entity_name (iterated_items items) []"

definition entity_path :: "env \<Rightarrow> string \<Rightarrow> entity_dir \<Rightarrow> string" where
  "entity_path ev area_type ed = areas_path ev @ ''/'' @ area_type @ ''/'' @ ed_name ed"

definition summary_entries :: "env \<Rightarrow> string \<Rightarrow> entity_dir \<Rightarrow> entry list" where
  "summary_entries ev area_type ed =
     (case ed_summary ed of
        Content content \<Rightarrow>
          [\<lparr>e_id = JStr (generate_id (md5_hex ev) content
                           (entity_path ev area_type ed @ ''/summary.md'')),
            e_content = JStr content,
            e_source = entity_path ev area_type ed @ ''/summary.md'',
            e_layer = ''knowledge_graph'',
            e_timestamp = JNull,
            e_entity = Some (ed_name ed),
            e_category = JStr (''summary:'' @ area_type)\<rparr>]
      | _ \<Rightarrow> [])"

definition items_entries :: "env \<Rightarrow> string \<Rightarrow> entity_dir \<Rightarrow> entry list" where
  "items_entries ev area_type ed =
     (case ed_items ed of
        Content items \<Rightarrow>
          kg_fact_entries ev (entity_path ev area_type ed @ ''/items.json'') (ed_name ed) items
      | _ \<Rightarrow> [])"

definition area_types :: "string list" where
  "area_types = [''people'', ''companies'', ''projects'', ''skills'', ''workflows'']"

definition index_knowledge_graph :: "env \<Rightarrow> entry list" where
  "index_knowledge_graph ev =
     concat (map (\<lambda>area_type.
                    concat (map (\<lambda>ed. summary_entries ev area_type ed @ items_entries ev area_type ed)
                              (area_dirs ev area_type)))
               area_types)"

text \<open>\<open>_index_tools\<close>: one entry per readable \<open>SKILL.md\<close>.\<close>

definition index_tools :: "env \<Rightarrow> entry list" where
  "index_tools ev =
     concat (map (\<lambda>(skill_file, text). case text of
                         None \<Rightarrow> []
                       | Some content \<Rightarrow>
                           [\<lparr>e_id = JStr (generate_id (md5_hex ev) content skill_file),
                             e_content = JStr content,
                             e_source = skill_file,
                             e_layer = ''tools'',
                             e_timestamp = JNull,
                             e_entity = None,
                             e_category = JStr ''skill''\<rparr>])
               (skill_files ev))"


section \<open>Index build and load\<close>

text \<open>
  The persisted index: the entry sequence together with the fitted vectorizer and the
  document-term matrix. The last two are scikit-learn objects; what the searcher does with
  them is \<open>cosine_similarity(vectorizer.transform([query]), matrix).flatten()\<close>, one score
  per matrix row, which is the field \<open>ix_similarities\<close>.
\<close>

record index =
  ix_entries :: "entry list"
  ix_similarities :: "string \<Rightarrow> real list"

text \<open>
  The state is the content of \<open>INDEX_PATH\<close>: \<open>None\<close> when the file does not exist (or
  cannot be unpickled), otherwise the index that was saved.
\<close>

type_synonym store = "index option"

definition load_index :: "store \<Rightarrow> index option" where
  "load_index st = st"

text \<open>\<open>index_all\<close> returns the count and the store after \<open>_save_index\<close>.\<close>

definition index_all :: "env \<Rightarrow> store \<Rightarrow> error + (nat \<times> store)" where
  "index_all ev st =
     (if \<not> has_sklearn ev then Inr (0, st)
      else
        let es = index_daily_notes ev @ index_tacit_knowledge ev
                 @ index_knowledge_graph ev @ index_tools ev
        in if es = [] then Inr (0, st)
           else (case fit_transform ev (map e_content es) of
                   Inl err \<Rightarrow> Inl err
                 | Inr sims \<Rightarrow>
                     Inr (length es, Some \<lparr>ix_entries = es, ix_similarities = sims\<rparr>)))"


section \<open>Query engine (SimpleMemorySearcher.search)\<close>

text \<open>
  A result record. \<open>id\<close> and \<open>content\<close> are the entry's values; \<open>timestamp\<close> and
  \<open>category\<close> are \<open>entry.timestamp or ''\<close> and \<open>entry.category or ''\<close>.
\<close>

record metadata =
  m_source :: string
  m_layer :: string
  m_timestamp :: json
  m_entity :: string
  m_category :: json

record result =
  r_id :: json
  r_content :: json
  r_metadata :: metadata
  r_relevance :: real

definition make_result :: "entry \<Rightarrow> real \<Rightarrow> result" where
  "make_result e rel =
     \<lparr>r_id = e_id e,
      r_content = e_content e,
      r_metadata = \<lparr>m_source = e_source e,
                    m_layer = e_layer e,
                    m_timestamp = or_empty (e_timestamp e),
                    m_entity = or_empty_str (e_entity e),
                    m_category = or_empty (e_category e)\<rparr>,
      r_relevance = rel\<rparr>"

text \<open>
  \<open>similarities.argsort()\<close>: the indices in ascending order of score. NumPy's default sort
  leaves the order of equal scores open; the model orders equal scores by index.
\<close>

definition argsort :: "real list \<Rightarrow> nat list" where
  "argsort sims = sort_key (\<lambda>i. sims ! i) [0..<length sims]"

text \<open>
  \<open>entry.timestamp < since\<close> for a string \<open>since\<close>: the order of strings when the timestamp
  is a string, TypeError for any other value.
\<close>

definition less_than_str :: "json \<Rightarrow> string \<Rightarrow> error + bool" where
  "less_than_str v s = (case v of JStr t \<Rightarrow> Inr (t < s) | _ \<Rightarrow> Inl TypeError)"

text \<open>
  The three \<open>continue\<close> guards of the loop body, in the source's order: whether the entry
  is skipped, or the exception of the comparison in the second guard.
\<close>

definition skipped :: "string option \<Rightarrow> string option \<Rightarrow> string option \<Rightarrow> entry \<Rightarrow> error + bool" where
  "skipped layer since entity e =
     (if truthy_str layer \<and> Some (e_layer e) \<noteq> layer then Inr True
      else
        (case (if truthy_str since \<and> truthy (e_timestamp e)
               then less_than_str (e_timestamp e) (the since) else Inr False) of
           Inl err \<Rightarrow> Inl err
         | Inr True \<Rightarrow> Inr True
         | Inr False \<Rightarrow> Inr (truthy_str entity \<and> e_entity e \<noteq> entity)))"

text \<open>
  The loop \<open>for idx in top_indices\<close>: \<open>entries[idx]\<close> raises IndexError when the matrix
  has more rows than there are entries; the \<open>break\<close> comes after the append.
\<close>

fun scan :: "entry list \<Rightarrow> real list \<Rightarrow> int \<Rightarrow> string option \<Rightarrow> string option \<Rightarrow> string option
               \<Rightarrow> nat list \<Rightarrow> result list \<Rightarrow> error + result list" where
  "scan es sims limit layer since entity [] results = Inr results"
| "scan es sims limit layer since entity (idx # rest) results =
     (if length es \<le> idx then Inl IndexError
      else
        let e = es ! idx in
        case skipped layer since entity e of
          Inl err \<Rightarrow> Inl err
        | Inr True \<Rightarrow> scan es sims limit layer since entity rest results
        | Inr False \<Rightarrow>
            (let results' = results @ [make_result e (sims ! idx)] in
             if int (length results') \<ge> limit then Inr results'
             else scan es sims limit layer since entity rest results'))"

definition search_loaded ::
  "index \<Rightarrow> string \<Rightarrow> int \<Rightarrow> string option \<Rightarrow> string option \<Rightarrow> string option \<Rightarrow> error + result list" where
  "search_loaded ix query limit layer since entity =
     (let similarities = ix_similarities ix query;
          top_indices = rev (argsort similarities)
      in scan (ix_entries ix) similarities limit layer since entity top_indices [])"

text \<open>
  \<open>search\<close>: load the index, building it first when loading fails; import
  \<open>cosine_similarity\<close>; then \<open>self.indexer.vectorizer.transform\<close>, which raises
  AttributeError when the vectorizer is still \<open>None\<close>.
\<close>

definition search ::
  "env \<Rightarrow> store \<Rightarrow> string \<Rightarrow> int \<Rightarrow> string option \<Rightarrow> string option \<Rightarrow> string option
     \<Rightarrow> (error + result list) \<times> store" where
  "search ev st query limit layer since entity =
     (case (case load_index st of
              Some ix \<Rightarrow> Inr st
            | None \<Rightarrow> (case index_all ev st of Inl err \<Rightarrow> Inl err | Inr (n, st') \<Rightarrow> Inr st')) of
        Inl err \<Rightarrow> (Inl err, st)
      | Inr st' \<Rightarrow>
          if \<not> has_sklearn ev then (Inl ImportError, st')
          else (case load_index st' of
                  None \<Rightarrow> (Inl AttributeError, st')
                | Some ix \<Rightarrow> (search_loaded ix query limit layer since entity, st')))"


section \<open>Direct lookup (main, the \<open>--ids\<close> path)\<close>

definition requested_ids :: "string \<Rightarrow> string list" where
  "requested_ids ids = map strip (split_on (CHR '','') ids)"

text \<open>\<open>entry.id in requested_ids\<close>: only a string equals an element of a list of strings.\<close>

definition id_in :: "json \<Rightarrow> string list \<Rightarrow> bool" where
  "id_in i req = (case i of JStr s \<Rightarrow> s \<in> set req | _ \<Rightarrow> False)"

text \<open>The loop \<open>for entry in searcher.indexer.entries\<close> with its append.\<close>

fun lookup_loop :: "string list \<Rightarrow> entry list \<Rightarrow> result list \<Rightarrow> result list" where
  "lookup_loop req [] results = results"
| "lookup_loop req (e # es) results =
     (if id_in (e_id e) req then lookup_loop req es (results @ [make_result e 1])
      else lookup_loop req es results)"

text \<open>
  The list handed to \<open>print_results\<close>; \<open>sys.exit(1)\<close> when no index can be loaded.
\<close>

definition get_by_ids :: "store \<Rightarrow> string \<Rightarrow> error + result list" where
  "get_by_ids st ids =
     (case load_index st of
        None \<Rightarrow> Inl SystemExit
      | Some ix \<Rightarrow> Inr (lookup_loop (requested_ids ids) (ix_entries ix) []))"


section \<open>Specification-side notions\<close>

text \<open>The result record of row \<open>i\<close> of a loaded index for a query.\<close>

definition ranked_result :: "index \<Rightarrow> string \<Rightarrow> nat \<Rightarrow> result" where
  "ranked_result ix query i = make_result (ix_entries ix ! i) (ix_similarities ix query ! i)"

text \<open>A filter argument counts as given when it is a non-empty string.\<close>

definition filter_given :: "string option \<Rightarrow> bool" where
  "filter_given f = (f \<noteq> None \<and> f \<noteq> Some [])"

text \<open>
  An entry passes the filters when no given filter rejects it: a given layer must be the
  entry's layer, a given entity must be the entry's entity, and a given since rejects the
  entry only when its timestamp is a non-empty string lexically less than since.
\<close>

definition passes_filters :: "string option \<Rightarrow> string option \<Rightarrow> string option \<Rightarrow> entry \<Rightarrow> bool" where
  "passes_filters layer since entity e =
     ((filter_given layer \<longrightarrow> Some (e_layer e) = layer) \<and>
      (filter_given since \<longrightarrow>
         (case e_timestamp e of JStr t \<Rightarrow> \<not> (t \<noteq> [] \<and> t < the since) | _ \<Rightarrow> True)) \<and>
      (filter_given entity \<longrightarrow> e_entity e = entity))"

text \<open>
  A timestamp of the declared type \<open>Optional[str]\<close>, or any other value that counts as
  false: the values for which the since guard makes no comparison with a non-string.
\<close>

definition text_or_absent :: "json \<Rightarrow> bool" where
  "text_or_absent v = (case v of JStr t \<Rightarrow> True | _ \<Rightarrow> \<not> truthy v)"

text \<open>
  What a result reports of an entry: its id, content, source and layer, and for each
  optional field the stored value, with the empty string in place of a value that counts
  as false (\<open>None\<close>, the empty string, zero, \<open>false\<close>, an empty list or dict).
\<close>

definition stored_or_empty :: "json \<Rightarrow> json" where
  "stored_or_empty x =
     (case x of
        JNull \<Rightarrow> JStr []
      | JBool b \<Rightarrow> (if b then JBool True else JStr [])
      | JInt n \<Rightarrow> (if n = 0 then JStr [] else JInt n)
      | JFloat r \<Rightarrow> (if r = 0 then JStr [] else JFloat r)
      | JStr s \<Rightarrow> JStr s
      | JList xs \<Rightarrow> (if xs = [] then JStr [] else JList xs)
      | JDict d \<Rightarrow> (if d = [] then JStr [] else JDict d))"

definition stored_or_empty_str :: "string option \<Rightarrow> string" where
  "stored_or_empty_str x = (case x of None \<Rightarrow> [] | Some s \<Rightarrow> s)"

definition reports_entry :: "entry \<Rightarrow> result \<Rightarrow> bool" where
  "reports_entry e r =
     (r_id r = e_id e \<and> r_content r = e_content e \<and>
      m_source (r_metadata r) = e_source e \<and>
      m_layer (r_metadata r) = e_layer e \<and>
      m_timestamp (r_metadata r) = stored_or_empty (e_timestamp e) \<and>
      m_entity (r_metadata r) = stored_or_empty_str (e_entity e) \<and>
      m_category (r_metadata r) = stored_or_empty (e_category e) \<and>
      m_timestamp (r_metadata r) \<noteq> JNull \<and> m_category (r_metadata r) \<noteq> JNull)"

definition stored_entries :: "store \<Rightarrow> entry list" where
  "stored_entries st = (case st of None \<Rightarrow> [] | Some ix \<Rightarrow> ix_entries ix)"



section \<open>Example data\<close>

definition note_entry :: entry where
  "note_entry =
     \<lparr>e_id = JStr ''a1b2c3d4e5f6'', e_content = JStr ''## Discussed deployment plan'',
      e_source = ''memory/2026-01-30.md'', e_layer = ''daily'',
      e_timestamp = JStr ''2026-01-30'', e_entity = None,
      e_category = JStr ''discussed deployment plan''\<rparr>"

definition fact_entry :: entry where
  "fact_entry =
     \<lparr>e_id = JStr ''f-001'', e_content = JStr ''Alice joined the team'',
      e_source = ''people/Alice/items.json'', e_layer = ''knowledge_graph'',
      e_timestamp = JStr [], e_entity = Some ''Alice'',
      e_category = JStr ''fact''\<rparr>"

definition skill_entry :: entry where
  "skill_entry =
     \<lparr>e_id = JStr ''0123456789ab'', e_content = JStr ''Deployment skill'',
      e_source = ''tools/deploy/SKILL.md'', e_layer = ''tools'',
      e_timestamp = JNull, e_entity = None, e_category = JStr ''skill''\<rparr>"

definition example_index :: index where
  "example_index =
     \<lparr>ix_entries = [note_entry, fact_entry, skill_entry],
      ix_similarities = (\<lambda>query. [3 / 4, 1 / 2, 1 / 4])\<rparr>"

text \<open>A workspace with scikit-learn installed and no file to index.\<close>

definition example_env :: env where
  "example_env =
     \<lparr>has_sklearn = True,
      fit_transform = (\<lambda>documents. Inr (\<lambda>query. map (\<lambda>d. 0) documents)),
      md5_hex = (\<lambda>s. []),
      list_str = (\<lambda>xs. []),
      memory_path = ''memory'',
      memory_files = [],
      tacit_files = [(''MEMORY.md'', Absent), (''AGENTS.md'', Absent), (''HEARTBEAT.md'', Absent)],
      areas_path = ''life/areas'',
      area_dirs = (\<lambda>area_type. []),
      skill_files = []\<rparr>"

text \<open>An entry whose timestamp is a Unix time, as \<open>items.json\<close> may hold it.\<close>

definition epoch_entry :: entry where
  "epoch_entry =
     \<lparr>e_id = JStr ''f-002'', e_content = JStr ''Alice leads the deployment'',
      e_source = ''people/Alice/items.json'', e_layer = ''knowledge_graph'',
      e_timestamp = JInt 1769853600, e_entity = Some ''Alice'',
      e_category = JStr ''fact''\<rparr>"

definition epoch_index :: index where
  "epoch_index =
     \<lparr>ix_entries = [note_entry, epoch_entry],
      ix_similarities = (\<lambda>query. [3 / 4, 1 / 2])\<rparr>"


section \<open>Timeline engine (memory-timeline.py, get_timeline)\<close>

text \<open>
  A \<open>datetime\<close> is naive or aware (it carries a UTC offset); either way its wall-clock
  reading is the number of microseconds since 0001-01-01T00:00:00. The functions of the
  \<open>datetime\<close> module that read and write text are library code and are taken as
  parameters: \<open>datetime.fromisoformat\<close> (which may give an aware value),
  \<open>datetime.strptime(_, '%Y-%m-%d')\<close> (always naive), both \<open>None\<close> when they raise, and
  \<open>strftime('%Y-%m-%d')\<close>, which formats the wall-clock reading.
\<close>

datatype datetime = Naive int | Aware int

fun wall_clock :: "datetime \<Rightarrow> int" where
  "wall_clock (Naive t) = t"
| "wall_clock (Aware t) = t"

record datetime_lib =
  fromisoformat :: "string \<Rightarrow> datetime option"
  strptime_ymd :: "string \<Rightarrow> int option"
  strftime_ymd :: "int \<Rightarrow> string"

text \<open>
  \<open>anchor_time + timedelta(hours=h)\<close>: the wall-clock reading moves, the offset stays;
  OverflowError when the result leaves the years 1 to 9999 (3652059 days).
\<close>

definition max_datetime :: int where
  "max_datetime = 3652059 * 86400000000"

definition shift_hours :: "datetime \<Rightarrow> int \<Rightarrow> error + datetime" where
  "shift_hours t h =
     (let t' = wall_clock t + h * 3600000000
      in if 0 \<le> t' \<and> t' < max_datetime
         then Inr (case t of Naive u \<Rightarrow> Naive t' | Aware u \<Rightarrow> Aware t')
         else Inl OverflowError)"

text \<open>
  An event of the timeline. Its \<open>date\<close> is the file date of a daily note, or what
  \<open>item.get('timestamp', '')\<close> gives for a fact; its \<open>event\<close> is the headline, or what
  \<open>item.get('fact', '')\<close> gives.
\<close>

record event =
  ev_date :: json
  ev_type :: string
  ev_event :: json
  ev_file :: string
  ev_entity :: "string option"

text \<open>
  The local function \<open>sort_key\<close>: \<open>str(date)\<close> for an \<open>int\<close> (a \<open>bool\<close> is an \<open>int\<close>),
  otherwise \<open>date or ''\<close>. A float, a list or a dict that counts as true is returned as it is.
\<close>

definition sort_key_date :: "event \<Rightarrow> json" where
  "sort_key_date e =
     (case ev_date e of
        JInt n \<Rightarrow> JStr (str_int n)
      | JBool b \<Rightarrow> JStr (if b then ''True'' else ''False'')
      | v \<Rightarrow> or_empty v)"

text \<open>
  Python's \<open>==\<close> and \<open><\<close> on values. Numbers (booleans, integers, floats) are compared by
  value; strings with strings; lists element by element, the first pair of unequal
  elements deciding; two dicts are equal when they have the same keys with equal values.
  \<open><\<close> raises TypeError between values of different kinds, on \<open>None\<close> and on dicts. A float
  is a real number here: the \<open>NaN\<close> and infinities that \<open>json.load\<close> accepts are left out.
\<close>

fun num_val :: "json \<Rightarrow> real option" where
  "num_val (JBool b) = Some (if b then 1 else 0)"
| "num_val (JInt n) = Some (of_int n)"
| "num_val (JFloat x) = Some x"
| "num_val v = None"

fun py_eq :: "json \<Rightarrow> json \<Rightarrow> bool"
  and py_eq_list :: "json list \<Rightarrow> json list \<Rightarrow> bool"
  and py_sub_dict :: "(string \<times> json) list \<Rightarrow> (string \<times> json) list \<Rightarrow> bool"
  and py_eq_at :: "json \<Rightarrow> string \<Rightarrow> (string \<times> json) list \<Rightarrow> bool" where
  "py_eq (JList xs) b = (case b of JList ys \<Rightarrow> py_eq_list xs ys | _ \<Rightarrow> False)"
| "py_eq (JDict d) b =
     (case b of JDict d' \<Rightarrow> length d = length d' \<and> py_sub_dict d d' | _ \<Rightarrow> False)"
| "py_eq (JStr s) b = (b = JStr s)"
| "py_eq JNull b = (b = JNull)"
| "py_eq (JBool x) b = (num_val b = Some (if x then 1 else 0))"
| "py_eq (JInt n) b = (num_val b = Some (of_int n))"
| "py_eq (JFloat x) b = (num_val b = Some x)"
| "py_eq_list [] ys = (ys = [])"
| "py_eq_list (x # xs) ys =
     (case ys of [] \<Rightarrow> False | y # ys' \<Rightarrow> py_eq x y \<and> py_eq_list xs ys')"
| "py_sub_dict [] d' = True"
| "py_sub_dict ((k, v) # d) d' = (py_eq_at v k d' \<and> py_sub_dict d d')"
| "py_eq_at v k [] = False"
| "py_eq_at v k ((k', w) # d') = (if k = k' then py_eq v w else py_eq_at v k d')"

definition num_lt :: "real \<Rightarrow> json \<Rightarrow> error + bool" where
  "num_lt x b = (case num_val b of Some y \<Rightarrow> Inr (x < y) | None \<Rightarrow> Inl TypeError)"

fun py_lt :: "json \<Rightarrow> json \<Rightarrow> error + bool"
  and py_lt_list :: "json list \<Rightarrow> json list \<Rightarrow> error + bool" where
  "py_lt (JList xs) b = (case b of JList ys \<Rightarrow> py_lt_list xs ys | _ \<Rightarrow> Inl TypeError)"
| "py_lt (JStr s) b = (case b of JStr t \<Rightarrow> Inr (s < t) | _ \<Rightarrow> Inl TypeError)"
| "py_lt (JBool x) b = num_lt (if x then 1 else 0) b"
| "py_lt (JInt n) b = num_lt (of_int n) b"
| "py_lt (JFloat x) b = num_lt x b"
| "py_lt JNull b = Inl TypeError"
| "py_lt (JDict d) b = Inl TypeError"
| "py_lt_list [] ys = Inr (ys \<noteq> [])"
| "py_lt_list (x # xs) ys =
     (case ys of
        [] \<Rightarrow> Inr False
      | y # ys' \<Rightarrow> if py_eq x y then py_lt_list xs ys' else py_lt x y)"

text \<open>
  \<open>timeline_events.sort(key=sort_key)\<close>. \<open>list.sort\<close> is a stable sort that compares the
  keys with \<open><\<close>, and an exception of a comparison leaves the sort. A sort has to compare
  every key with one of the others, so two keys of different kinds (a float and a string, say)
  or a dict among several keys make it raise; the model raises when some two keys of the list
  cannot be compared, and otherwise inserts each event before the first one that is not
  smaller.
\<close>

definition comparable :: "json \<Rightarrow> json \<Rightarrow> bool" where
  "comparable a b = (\<not> isl (py_lt a b) \<and> \<not> isl (py_lt b a))"

fun pairwise_comparable :: "json list \<Rightarrow> bool" where
  "pairwise_comparable [] = True"
| "pairwise_comparable (k # ks) = (list_all (comparable k) ks \<and> pairwise_comparable ks)"

fun insert_event :: "event \<Rightarrow> event list \<Rightarrow> event list" where
  "insert_event x [] = [x]"
| "insert_event x (y # ys) =
     (if py_lt (sort_key_date y) (sort_key_date x) = Inr True then y # insert_event x ys
      else x # y # ys)"

definition sort_events :: "event list \<Rightarrow> error + event list" where
  "sort_events events =
     (if pairwise_comparable (map sort_key_date events) then Inr (foldr insert_event events [])
      else Inl TypeError)"

text \<open>
  What the timeline reads from disk: the \<open>*.md\<close> files of the memory directory and the
  \<open>items.json\<close> files under the knowledge-graph tree (path, name of the parent directory,
  modification time as the naive local time that \<open>datetime.fromtimestamp\<close> gives, parsed
  content or \<open>None\<close> when \<open>open\<close> or \<open>json.load\<close> raises).
\<close>

record kg_file =
  kf_path :: string
  kf_entity :: string
  kf_mtime :: int
  kf_items :: "json option"

record files =
  memory_dir :: string
  daily_files :: "daily_file list"
  kg_files :: "kg_file list"

definition md_path :: "files \<Rightarrow> daily_file \<Rightarrow> string" where
  "md_path fs f = memory_dir fs @ ''/'' @ df_stem f @ ''.md''"

text \<open>\<open>str.replace('mem-', '')\<close>.\<close>

function replace_mem :: "string \<Rightarrow> string" where
  "replace_mem s =
     (if s = [] then []
      else if take 4 s = ''mem-'' then replace_mem (drop 4 s)
      else hd s # replace_mem (tl s))"
  by pat_completeness auto
termination
  by (relation "measure length") auto

text \<open>
  The anchor context: content, source and timestamp of the entry found by id, or the first
  search result.
\<close>

datatype anchor_context =
  EntryContext json string json
| ResultContext result

record time_window =
  tw_start :: string
  tw_end :: string
  tw_hours_before :: int
  tw_hours_after :: int

record timeline =
  tl_anchor :: "anchor_context option"
  tl_time_window :: time_window
  tl_events :: "event list"

text \<open>The returned dict: \<open>{}\<close> or the timeline.\<close>

datatype timeline_result = EmptyDict | Timeline timeline

text \<open>
  Anchor resolution (the \<open>if memory_id / elif date / elif query\<close> chain). It either
  returns \<open>{}\<close> at once or leaves \<open>anchor_time\<close> and \<open>anchor_context\<close>.
\<close>

datatype resolution = EarlyReturn | Anchor "datetime option" "anchor_context option"

text \<open>
  \<open>if timestamp and len(timestamp) == 10: try: strptime(timestamp, '%Y-%m-%d') except: pass\<close>.
  \<open>len\<close> stands outside the \<open>try\<close> and raises TypeError on a number or \<open>True\<close>; on a list or
  a dict of ten elements \<open>strptime\<close> raises inside the \<open>try\<close>.
\<close>

definition parse_day :: "datetime_lib \<Rightarrow> json \<Rightarrow> error + datetime option" where
  "parse_day lib timestamp =
     (if \<not> truthy timestamp then Inr None
      else (case timestamp of
              JStr s \<Rightarrow> Inr (if length s = 10 then map_option Naive (strptime_ymd lib s) else None)
            | JList xs \<Rightarrow> Inr None
            | JDict d \<Rightarrow> Inr None
            | _ \<Rightarrow> Inl TypeError))"

definition resolve_anchor ::
  "datetime_lib \<Rightarrow> env \<Rightarrow> store \<Rightarrow> string option \<Rightarrow> string option \<Rightarrow> string option
     \<Rightarrow> (error + resolution) \<times> store" where
  "resolve_anchor lib ev st memory_id date query =
     (if truthy_str memory_id then
        (let clean_id = replace_mem (the memory_id) in
         case load_index st of
           None \<Rightarrow> (Inr EarlyReturn, st)
         | Some ix \<Rightarrow>
             (case find (\<lambda>entry. e_id entry = JStr clean_id) (ix_entries ix) of
                None \<Rightarrow> (Inr (Anchor None None), st)
              | Some entry \<Rightarrow>
                  (case parse_day lib (e_timestamp entry) of
                     Inl err \<Rightarrow> (Inl err, st)
                   | Inr anchor_time \<Rightarrow>
                       (Inr (Anchor anchor_time
                               (Some (EntryContext (e_content entry) (e_source entry)
                                        (e_timestamp entry)))), st))))
      else if truthy_str date then
        (case fromisoformat lib (the date) of
           None \<Rightarrow> (Inr EarlyReturn, st)
         | Some t \<Rightarrow> (Inr (Anchor (Some t) None), st))
      else if truthy_str query then
        (case search ev st (the query) 1 None None None of
           (Inl err, st') \<Rightarrow> (Inl err, st')
         | (Inr [], st') \<Rightarrow> (Inr (Anchor None None), st')
         | (Inr (r # rs), st') \<Rightarrow>
             (case parse_day lib (m_timestamp (r_metadata r)) of
                Inl err \<Rightarrow> (Inl err, st')
              | Inr anchor_time \<Rightarrow> (Inr (Anchor anchor_time (Some (ResultContext r))), st')))
      else (Inr (Anchor None None), st))"

text \<open>
  Daily-note events: the files in sorted order, those whose stem has exactly two hyphens
  and lies in \<open>[start_date, end_date]\<close>, one event per line that starts with \<open>##\<close>. The
  \<open>open\<close> and \<open>read\<close> of such a file stand outside any \<open>try\<close>: a file that cannot be read
  ends the call with the exception.
\<close>

definition in_date_range :: "string \<Rightarrow> string \<Rightarrow> daily_file \<Rightarrow> bool" where
  "in_date_range start_date end_date f =
     (count_list (df_stem f) (CHR ''-'') = 2 \<and> start_date \<le> df_stem f \<and> df_stem f \<le> end_date)"

definition file_events :: "files \<Rightarrow> daily_file \<Rightarrow> event list" where
  "file_events fs f =
     (case df_content f of
        None \<Rightarrow> []
      | Some content \<Rightarrow>
          map (\<lambda>line. \<lparr>ev_date = JStr (df_stem f), ev_type = ''daily_note'',
                        ev_event = JStr (strip_chars ''# '' line), ev_file = md_path fs f,
                        ev_entity = None\<rparr>)
            (filter (\<lambda>line. take 2 line = ''##'') (split_on (CHR 0x0A) content)))"

definition daily_note_events :: "files \<Rightarrow> string \<Rightarrow> string \<Rightarrow> error + event list" where
  "daily_note_events fs start_date end_date =
     (if list_ex (\<lambda>f. in_date_range start_date end_date f \<and> df_content f = None) (daily_files fs)
      then Inl OSError
      else Inr (concat (map (\<lambda>f. if in_date_range start_date end_date f
                                   then file_events fs f else [])
                          (sort_key (\<lambda>f. df_stem f @ ''.md'') (daily_files fs)))))"

text \<open>
  Knowledge-graph events of one \<open>items.json\<close>: \<open>for item in items[-5:]\<close> with
  \<open>item.get\<close>, inside a \<open>try\<close> whose bare \<open>except\<close> passes. Slicing anything but a list
  or a string raises, and so does \<open>.get\<close> on an element that is not a dict (a character of
  a string, for one); the events appended before the exception stay.
\<close>

definition fact_event :: "kg_file \<Rightarrow> (string \<times> json) list \<Rightarrow> event" where
  "fact_event f item =
     \<lparr>ev_date = dict_get item ''timestamp'' (JStr []),
      ev_type = ''knowledge_graph'',
      ev_event = dict_get item ''fact'' (JStr []),
      ev_file = kf_path f,
      ev_entity = Some (kf_entity f)\<rparr>"

fun item_events :: "kg_file \<Rightarrow> json list \<Rightarrow> event list" where
  "item_events f [] = []"
| "item_events f (item # rest) =
     (case item of JDict d \<Rightarrow> fact_event f d # item_events f rest | _ \<Rightarrow> [])"

definition kg_file_events :: "kg_file \<Rightarrow> event list" where
  "kg_file_events f =
     (case kf_items f of
        Some (JList items) \<Rightarrow> item_events f (drop (length items - 5) items)
      | _ \<Rightarrow> [])"

text \<open>
  The loop over the \<open>items.json\<close> files. The comparison of the window bounds with the
  modification time, a naive \<open>datetime\<close>, raises TypeError when the anchor is aware; it is
  made for every file, outside the \<open>try\<close>.
\<close>

definition knowledge_graph_events :: "files \<Rightarrow> datetime \<Rightarrow> datetime \<Rightarrow> error + event list" where
  "knowledge_graph_events fs lo hi =
     (if kg_files fs = [] then Inr []
      else (case (lo, hi) of
              (Naive l, Naive h) \<Rightarrow>
                Inr (concat (map (\<lambda>f. if l \<le> kf_mtime f \<and> kf_mtime f \<le> h
                                       then kg_file_events f else [])
                               (kg_files fs)))
            | _ \<Rightarrow> Inl TypeError))"

definition get_timeline ::
  "datetime_lib \<Rightarrow> env \<Rightarrow> files \<Rightarrow> store \<Rightarrow> string option \<Rightarrow> string option \<Rightarrow> string option
     \<Rightarrow> int \<Rightarrow> int \<Rightarrow> (error + timeline_result) \<times> store" where
  "get_timeline lib ev fs st memory_id date query hours_before hours_after =
     (case resolve_anchor lib ev st memory_id date query of
        (Inl err, st') \<Rightarrow> (Inl err, st')
      | (Inr EarlyReturn, st') \<Rightarrow> (Inr EmptyDict, st')
      | (Inr (Anchor None anchor_context), st') \<Rightarrow> (Inr EmptyDict, st')
      | (Inr (Anchor (Some anchor_time) anchor_context), st') \<Rightarrow>
          (case shift_hours anchor_time (- hours_before) of
             Inl err \<Rightarrow> (Inl err, st')
           | Inr lo \<Rightarrow>
               (case shift_hours anchor_time hours_after of
                  Inl err \<Rightarrow> (Inl err, st')
                | Inr hi \<Rightarrow>
                    (let start_date = strftime_ymd lib (wall_clock lo);
                         end_date = strftime_ymd lib (wall_clock hi)
                     in case daily_note_events fs start_date end_date of
                          Inl err \<Rightarrow> (Inl err, st')
                        | Inr daily \<Rightarrow>
                            (case knowledge_graph_events fs lo hi of
                               Inl err \<Rightarrow> (Inl err, st')
                             | Inr facts \<Rightarrow>
                                 (case sort_events (daily @ facts) of
                                    Inl err \<Rightarrow> (Inl err, st')
                                  | Inr timeline_events \<Rightarrow>
                                      (Inr (Timeline
                                         \<lparr>tl_anchor = anchor_context,
                                          tl_time_window =
                                            \<lparr>tw_start = start_date, tw_end = end_date,
                                             tw_hours_before = hours_before,
                                             tw_hours_after = hours_after\<rparr>,
                                          tl_events = timeline_events\<rparr>), st')))))))"

text \<open>The anchor instant a resolution determined, if any.\<close>

definition anchor_instant :: "error + resolution \<Rightarrow> datetime option" where
  "anchor_instant r = (case r of Inr (Anchor (Some t) ctx) \<Rightarrow> Some t | _ \<Rightarrow> None)"


section \<open>A reference calendar for ISO dates\<close>

text \<open>
  An instance of the library parameters that reads and writes dates of the form
  \<open>YYYY-MM-DD\<close> in the proleptic Gregorian calendar, as Python's \<open>datetime\<close> does for such
  strings. It is used to run the timeline on concrete inputs.
\<close>

definition read_number :: "string \<Rightarrow> int option" where
  "read_number s =
     (if s \<noteq> [] \<and> list_all is_digit s
      then Some (foldl (\<lambda>a c. 10 * a + (int (of_char c) - 48)) 0 s) else None)"

definition is_leap :: "int \<Rightarrow> bool" where
  "is_leap y = (y mod 4 = 0 \<and> (if y mod 100 = 0 then y mod 400 = 0 else True))"

definition days_in_month :: "int \<Rightarrow> int \<Rightarrow> int" where
  "days_in_month y m =
     (if m = 2 then (if is_leap y then 29 else 28)
      else if m = 4 \<or> m = 6 \<or> m = 9 \<or> m = 11 then 30 else 31)"

text \<open>Days from 0001-01-01 to the given date, and back.\<close>

definition days_from_civil :: "int \<Rightarrow> int \<Rightarrow> int \<Rightarrow> int" where
  "days_from_civil y m d =
     (let y' = (if m \<le> 2 then y - 1 else y);
          era = y' div 400;
          yoe = y' mod 400;
          mp = (if m > 2 then m - 3 else m + 9);
          doy = (153 * mp + 2) div 5 + d - 1;
          doe = yoe * 365 + yoe div 4 - yoe div 100 + doy
      in era * 146097 + doe - 306)"

definition civil_from_days :: "int \<Rightarrow> int \<times> int \<times> int" where
  "civil_from_days z0 =
     (let z = z0 + 306;
          era = z div 146097;
          doe = z mod 146097;
          yoe = (doe - doe div 1460 + doe div 36524 - doe div 146096) div 365;
          y = yoe + era * 400;
          doy = doe - (365 * yoe + yoe div 4 - yoe div 100);
          mp = (5 * doy + 2) div 153;
          d = doy - (153 * mp + 2) div 5 + 1;
          m = (if mp < 10 then mp + 3 else mp - 9)
      in (if m \<le> 2 then y + 1 else y, m, d))"

definition parse_iso_date :: "string \<Rightarrow> int option" where
  "parse_iso_date s =
     (if length s = 10 \<and> s ! 4 = CHR ''-'' \<and> s ! 7 = CHR ''-'' then
        (case (read_number (take 4 s), read_number (take 2 (drop 5 s)), read_number (drop 8 s)) of
           (Some y, Some m, Some d) \<Rightarrow>
             (if 1 \<le> y \<and> 1 \<le> m \<and> m \<le> 12 \<and> 1 \<le> d \<and> d \<le> days_in_month y m
              then Some (days_from_civil y m d * 86400000000) else None)
         | _ \<Rightarrow> None)
      else None)"

definition zero_pad :: "nat \<Rightarrow> int \<Rightarrow> string" where
  "zero_pad w n = (let s = str_nat (nat n) in replicate (w - length s) (CHR ''0'') @ s)"

definition format_iso_date :: "int \<Rightarrow> string" where
  "format_iso_date t =
     (case civil_from_days (t div 86400000000) of
        (y, m, d) \<Rightarrow> zero_pad 4 y @ ''-'' @ zero_pad 2 m @ ''-'' @ zero_pad 2 d)"

definition iso_lib :: datetime_lib where
  "iso_lib = \<lparr>fromisoformat = (\<lambda>s. map_option Naive (parse_iso_date s)),
              strptime_ymd = parse_iso_date,
              strftime_ymd = format_iso_date\<rparr>"


section \<open>Example files for the timeline\<close>

definition note_jan30 :: daily_file where
  "note_jan30 =
     \<lparr>df_stem = ''2026-01-30'',
      df_content = Some (''# Friday'' @ [CHR 0x0A] @ ''## Discussed deployment plan''
                   @ [CHR 0x0A] @ ''rollout on Monday'')\<rparr>"

definition note_feb01 :: daily_file where
  "note_feb01 = \<lparr>df_stem = ''2026-02-01'', df_content = Some ''## Fixed the bug''\<rparr>"

definition scenario_files :: files where
  "scenario_files =
     \<lparr>memory_dir = ''memory'', daily_files = [note_feb01, note_jan30], kg_files = []\<rparr>"

definition alice_fact :: json where
  "alice_fact =
     JDict [(''fact'', JStr ''Alice joined the team''), (''timestamp'', JStr ''2026-03-01'')]"

text \<open>An \<open>items.json\<close> modified on 2026-01-31 at 10:00, as a bare list and as an object.\<close>

definition alice_list_file :: kg_file where
  "alice_list_file =
     \<lparr>kf_path = ''life/areas/people/Alice/items.json'', kf_entity = ''Alice'',
      kf_mtime = 63905414400000000 + 10 * 3600000000,
      kf_items = Some (JList [alice_fact])\<rparr>"

definition alice_dict_file :: kg_file where
  "alice_dict_file =
     \<lparr>kf_path = ''life/areas/people/Alice/items.json'', kf_entity = ''Alice'',
      kf_mtime = 63905414400000000 + 10 * 3600000000,
      kf_items = Some (JDict [(''items'', JList [alice_fact])])\<rparr>"

definition list_files :: files where
  "list_files = \<lparr>memory_dir = ''memory'', daily_files = [], kg_files = [alice_list_file]\<rparr>"

definition dict_files :: files where
  "dict_files = \<lparr>memory_dir = ''memory'', daily_files = [], kg_files = [alice_dict_file]\<rparr>"

text \<open>
  The daily notes of the scenario together with an \<open>items.json\<close>, modified inside the
  window, whose one fact carries a Unix time with a fractional part.
\<close>

definition epoch_fact :: json where
  "epoch_fact =
     JDict [(''fact'', JStr ''Alice leads the deployment''), (''timestamp'', JFloat (3539707201 / 2))]"

definition epoch_file :: kg_file where
  "epoch_file =
     \<lparr>kf_path = ''life/areas/people/Alice/items.json'', kf_entity = ''Alice'',
      kf_mtime = 63905414400000000 + 10 * 3600000000,
      kf_items = Some (JList [epoch_fact])\<rparr>"

definition epoch_files :: files where
  "epoch_files =
     \<lparr>memory_dir = ''memory'', daily_files = [note_feb01, note_jan30], kg_files = [epoch_file]\<rparr>"

definition jan_window :: time_window where
  "jan_window = \<lparr>tw_start = ''2026-01-30'', tw_end = ''2026-02-01'',
                  tw_hours_before = 24, tw_hours_after = 24\<rparr>"


section \<open>Ids in a built index\<close>









section \<open>Properties of the ranked scan\<close>

lemma set_argsort: "set (argsort sims) = {0..<length sims}"
  by (simp add: argsort_def)

lemma sorted_argsort: "sorted (map (\<lambda>i. sims ! i) (argsort sims))"
  by (simp add: argsort_def)

lemma ranked_descending:
  "sorted_wrt (\<lambda>i j. sims ! j \<le> sims ! i) (rev (argsort sims))"
proof -
  have "sorted_wrt (\<lambda>i j. sims ! i \<le> sims ! j) (argsort sims)"
    using sorted_argsort[of sims] by (simp add: sorted_map)
  then show ?thesis by (simp add: sorted_wrt_rev)
qed

text \<open>
  With every index in range, no guard raising and room left in the accumulator, the loop
  returns the accumulator followed by the first matches, up to the limit.
\<close>

lemma scan_take:
  "\<forall>i \<in> set idxs. i < length es \<and> skipped layer since entity (es ! i) = Inr (\<not> P (es ! i)) \<Longrightarrow>
   int (length acc) < limit \<Longrightarrow>
   scan es sims limit layer since entity idxs acc =
     Inr (acc @ take (nat limit - length acc)
            (map (\<lambda>i. make_result (es ! i) (sims ! i)) (filter (\<lambda>i. P (es ! i)) idxs)))"
proof (induction idxs arbitrary: acc)
  case Nil
  then show ?case by simp
next
  case (Cons idx rest)
  from Cons.prems(1) have inb: "idx < length es"
    and sk: "skipped layer since entity (es ! idx) = Inr (\<not> P (es ! idx))"
    and rest: "\<forall>i \<in> set rest. i < length es
                 \<and> skipped layer since entity (es ! i) = Inr (\<not> P (es ! i))"
    by simp_all
  show ?case
  proof (cases "P (es ! idx)")
    case False
    with Cons.IH[OF rest Cons.prems(2)] inb sk show ?thesis by simp
  next
    case True
    let ?acc' = "acc @ [make_result (es ! idx) (sims ! idx)]"
    have pos: "nat limit - length acc = Suc (nat limit - Suc (length acc))"
      using Cons.prems(2) by linarith
    show ?thesis
    proof (cases "limit \<le> int (length ?acc')")
      case stop: True
      then have "nat limit - Suc (length acc) = 0" by simp
      with stop True inb sk pos show ?thesis by (simp add: Let_def)
    next
      case go: False
      then have "int (length ?acc') < limit" by simp
      from Cons.IH[OF rest this]
      have "scan es sims limit layer since entity rest ?acc' =
        Inr (?acc' @ take (nat limit - length ?acc')
            (map (\<lambda>i. make_result (es ! i) (sims ! i)) (filter (\<lambda>i. P (es ! i)) rest)))" .
      with go True inb sk pos show ?thesis by (simp add: Let_def)
    qed
  qed
qed

text \<open>Whatever the limit, a returned list is the accumulator followed by a prefix of the matches.\<close>

lemma scan_prefix:
  "scan es sims limit layer since entity idxs acc = Inr rs \<Longrightarrow>
   \<exists>k. rs = acc @ take k (map (\<lambda>i. make_result (es ! i) (sims ! i))
                           (filter (\<lambda>i. skipped layer since entity (es ! i) = Inr False) idxs))"
proof (induction idxs arbitrary: acc)
  case Nil
  then show ?case by simp
next
  case (Cons idx rest)
  from Cons.prems have inb: "idx < length es" by (simp split: if_splits)
  from Cons.prems inb obtain b where sk: "skipped layer since entity (es ! idx) = Inr b"
    by (cases "skipped layer since entity (es ! idx)") (simp_all add: Let_def)
  show ?case
  proof (cases b)
    case True
    with Cons.prems inb sk have "scan es sims limit layer since entity rest acc = Inr rs"
      by (simp add: Let_def)
    from Cons.IH[OF this] True sk show ?thesis by simp
  next
    case False
    let ?r = "make_result (es ! idx) (sims ! idx)"
    let ?ms = "map (\<lambda>i. make_result (es ! i) (sims ! i))
                 (filter (\<lambda>i. skipped layer since entity (es ! i) = Inr False) rest)"
    show ?thesis
    proof (cases "limit \<le> int (length (acc @ [?r]))")
      case True
      with False sk Cons.prems inb have "rs = acc @ [?r]" by (simp add: Let_def)
      with False sk show ?thesis by (intro exI[of _ "Suc 0"]) simp
    next
      case stop: False
      with False sk Cons.prems inb
      have "scan es sims limit layer since entity rest (acc @ [?r]) = Inr rs"
        by (simp add: Let_def)
      from Cons.IH[OF this] obtain k where "rs = (acc @ [?r]) @ take k ?ms" by blast
      with False sk show ?thesis by (intro exI[of _ "Suc k"]) simp
    qed
  qed
qed

lemma scan_members:
  assumes "scan es sims limit layer since entity idxs [] = Inr rs" and "r \<in> set rs"
  shows "\<exists>i \<in> set idxs. i < length es \<and> r = make_result (es ! i) (sims ! i)"
proof -
  let ?keep = "filter (\<lambda>i. skipped layer since entity (es ! i) = Inr False) idxs"
  have inb: "scan es sims limit layer since entity idxs acc = Inr rs' \<Longrightarrow>
      i \<in> set (take (length rs' - length acc) (filter (\<lambda>i. skipped layer since entity (es ! i) = Inr False) idxs))
      \<Longrightarrow> i < length es" for acc rs' i
  proof (induction idxs arbitrary: acc)
    case Nil
    then show ?case by simp
  next
    case (Cons idx rest)
    from Cons.prems(1) have ib: "idx < length es" by (simp split: if_splits)
    from Cons.prems(1) ib obtain b where sk: "skipped layer since entity (es ! idx) = Inr b"
      by (cases "skipped layer since entity (es ! idx)") (simp_all add: Let_def)
    show ?case
    proof (cases b)
      case True
      with Cons.prems ib sk have "scan es sims limit layer since entity rest acc = Inr rs'"
        by (simp add: Let_def)
      from Cons.IH[OF this] Cons.prems(2) True sk show ?thesis by simp
    next
      case False
      let ?acc' = "acc @ [make_result (es ! idx) (sims ! idx)]"
      show ?thesis
      proof (cases "limit \<le> int (length ?acc')")
        case True
        with False sk Cons.prems(1) ib have "rs' = ?acc'" by (simp add: Let_def)
        with Cons.prems(2) False sk ib show ?thesis by simp
      next
        case go: False
        with False sk Cons.prems(1) ib
        have run: "scan es sims limit layer since entity rest ?acc' = Inr rs'"
          by (simp add: Let_def)
        from scan_prefix[OF run] obtain k where "rs' = ?acc' @ take k
             (map (\<lambda>i. make_result (es ! i) (sims ! i))
                 (filter (\<lambda>i. skipped layer since entity (es ! i) = Inr False) rest))" by blast
        then have len: "length rs' - length acc = Suc (length rs' - length ?acc')" by simp
        from Cons.prems(2) False sk len
        have "i = idx \<or> i \<in> set (take (length rs' - length ?acc')
               (filter (\<lambda>i. skipped layer since entity (es ! i) = Inr False) rest))" by simp
        with Cons.IH[OF run] ib show ?thesis by blast
      qed
    qed
  qed
  from scan_prefix[OF assms(1)] obtain k where
    rs: "rs = map (\<lambda>i. make_result (es ! i) (sims ! i)) (take k ?keep)"
    by (auto simp: take_map)
  then have "length rs = min k (length ?keep)" by simp
  then have tk: "take (length rs) ?keep = take k ?keep" by (simp add: min_def)
  from assms(2) rs obtain i where "i \<in> set (take k ?keep)"
    and r: "r = make_result (es ! i) (sims ! i)" by auto
  with tk have i: "i \<in> set (take (length rs) ?keep)" by simp
  from inb[OF assms(1), of i] i have "i < length es" by simp
  moreover from i have "i \<in> set idxs" by (auto dest: in_set_takeD)
  ultimately show ?thesis using r by blast
qed

text \<open>
  On timestamps that are strings or count as false the guards raise nothing, and they skip
  exactly the entries that do not pass the filters.
\<close>

lemma skipped_iff_not_passes:
  assumes "filter_given since \<longrightarrow> text_or_absent (e_timestamp e)"
  shows "skipped layer since entity e = Inr (\<not> passes_filters layer since entity e)"
  using assms
  by (cases layer; cases since; cases entity; cases "e_timestamp e")
     (auto simp: skipped_def passes_filters_def truthy_str_def filter_given_def
        text_or_absent_def less_than_str_def split: bool.splits)

lemma search_returns_loaded:
  assumes "search ev st query limit layer since entity = (Inr rs, st')"
  shows "\<exists>ix. st' = Some ix \<and> search_loaded ix query limit layer since entity = Inr rs"
  using assms
  by (auto simp: search_def load_index_def split: option.splits sum.splits if_splits prod.splits)

lemma id_in_image: "id_in i req \<longleftrightarrow> i \<in> JStr ` set req"
  by (cases i) (auto simp: id_in_def)

lemma lookup_loop_filter:
  "lookup_loop req es acc =
     acc @ map (\<lambda>e. make_result e 1) (filter (\<lambda>e. e_id e \<in> JStr ` set req) es)"
  by (induction es arbitrary: acc) (simp_all add: id_in_image)

lemma or_empty_stored: "or_empty v = stored_or_empty v"
  by (cases v) (simp_all add: or_empty_def stored_or_empty_def)

lemma stored_or_empty_not_null: "stored_or_empty v \<noteq> JNull"
  by (cases v) (simp_all add: stored_or_empty_def)

lemma or_empty_str_stored: "or_empty_str x = stored_or_empty_str x"
  by (cases x) (simp_all add: or_empty_str_def stored_or_empty_str_def)

lemma make_result_reports: "reports_entry e (make_result e rel)"
  by (simp add: reports_entry_def make_result_def or_empty_stored or_empty_str_stored
      stored_or_empty_not_null)

lemma search_loaded_members:
  assumes "search_loaded ix query limit layer since entity = Inr rs" and "r \<in> set rs"
  shows "\<exists>e \<in> set (ix_entries ix). reports_entry e r"
proof -
  from assms(1) have "scan (ix_entries ix) (ix_similarities ix query) limit layer since entity
      (rev (argsort (ix_similarities ix query))) [] = Inr rs"
    by (simp add: search_loaded_def Let_def)
  from scan_members[OF this assms(2)]
  obtain i where "i < length (ix_entries ix)"
    and "r = make_result (ix_entries ix ! i) (ix_similarities ix query ! i)" by auto
  then show ?thesis using make_result_reports nth_mem by blast
qed

lemma search_loaded_relevance:
  assumes "search_loaded ix query limit layer since entity = Inr rs"
  shows "sorted_wrt (\<lambda>a b. r_relevance b \<le> r_relevance a) rs"
proof -
  let ?sims = "ix_similarities ix query"
  let ?es = "ix_entries ix"
  let ?keep = "filter (\<lambda>i. skipped layer since entity (?es ! i) = Inr False) (rev (argsort ?sims))"
  from assms have "scan ?es ?sims limit layer since entity (rev (argsort ?sims)) [] = Inr rs"
    by (simp add: search_loaded_def Let_def)
  from scan_prefix[OF this] obtain k where
    rs: "rs = map (\<lambda>i. make_result (?es ! i) (?sims ! i)) (take k ?keep)"
    by (auto simp: take_map)
  have "sorted_wrt (\<lambda>i j. ?sims ! j \<le> ?sims ! i) (take k ?keep)"
    using ranked_descending[of ?sims] by (simp add: sorted_wrt_filter)
  then show ?thesis
    unfolding rs by (simp add: sorted_wrt_map make_result_def)
qed

lemma search_loaded_at_most:
  assumes "search_loaded ix query limit layer since entity = Inr rs" and "1 \<le> limit"
  shows "int (length rs) \<le> limit"
proof -
  let ?sims = "ix_similarities ix query"
  have gen: "scan es sims limit layer since entity idxs acc = Inr rs' \<Longrightarrow>
      int (length acc) < limit \<Longrightarrow> int (length rs') \<le> limit" for es sims idxs acc rs'
  proof (induction idxs arbitrary: acc)
    case Nil
    then show ?case by simp
  next
    case (Cons idx rest)
    from Cons.prems(1) have ib: "idx < length es" by (simp split: if_splits)
    from Cons.prems(1) ib obtain b where sk: "skipped layer since entity (es ! idx) = Inr b"
      by (cases "skipped layer since entity (es ! idx)") (simp_all add: Let_def)
    show ?case
    proof (cases b)
      case True
      with Cons.prems ib sk have "scan es sims limit layer since entity rest acc = Inr rs'"
        by (simp add: Let_def)
      from Cons.IH[OF this Cons.prems(2)] show ?thesis .
    next
      case False
      let ?acc' = "acc @ [make_result (es ! idx) (sims ! idx)]"
      show ?thesis
      proof (cases "limit \<le> int (length ?acc')")
        case True
        with False sk Cons.prems(1) ib have "rs' = ?acc'" by (simp add: Let_def)
        with Cons.prems(2) show ?thesis by simp
      next
        case go: False
        with False sk Cons.prems(1) ib
        have run: "scan es sims limit layer since entity rest ?acc' = Inr rs'"
          by (simp add: Let_def)
        from go have "int (length ?acc') < limit" by simp
        from Cons.IH[OF run this] show ?thesis .
      qed
    qed
  qed
  from assms(1) have "scan (ix_entries ix) ?sims limit layer since entity (rev (argsort ?sims)) [] = Inr rs"
    by (simp add: search_loaded_def Let_def)
  from gen[OF this] assms(2) show ?thesis by simp
qed


section \<open>Evaluations on the example index\<close>

lemma argsort_example: "argsort [3 / 4, 1 / 2, 1 / 4] = [2, 1, 0]"
  by (simp add: argsort_def upt_rec)

lemma argsort_epoch: "argsort [3 / 4, 1 / 2] = [1, 0]"
  by (simp add: argsort_def upt_rec)

lemmas example_defs =
  search_def load_index_def example_env_def example_index_def search_loaded_def
  skipped_def truthy_str_def less_than_str_def Let_def note_entry_def fact_entry_def
  skill_entry_def

lemma example_search_all:
  "search example_env (Some example_index) ''deployment'' 10 None None None =
     (Inr [make_result note_entry (3 / 4), make_result fact_entry (1 / 2),
           make_result skill_entry (1 / 4)], Some example_index)"
  by (simp add: example_defs argsort_example)

lemma example_search_limit_zero:
  "search example_env (Some example_index) ''deployment'' 0 None None None =
     (Inr [make_result note_entry (3 / 4)], Some example_index)"
  by (simp add: example_defs argsort_example)

lemma example_search_empty_entity:
  "search example_env (Some example_index) ''deployment'' 10 None None (Some []) =
     (Inr [make_result note_entry (3 / 4), make_result fact_entry (1 / 2),
           make_result skill_entry (1 / 4)], Some example_index)"
  by (simp add: example_defs argsort_example)

lemma example_search_since:
  "search example_env (Some example_index) ''deployment'' 10 None (Some ''2026-02-01'') None =
     (Inr [make_result fact_entry (1 / 2), make_result skill_entry (1 / 4)], Some example_index)"
  by (simp add: example_defs argsort_example)

lemma example_search_since_limit:
  "search example_env (Some example_index) ''deployment'' 1 None (Some ''2026-02-01'') None =
     (Inr [make_result fact_entry (1 / 2)], Some example_index)"
  by (simp add: example_defs argsort_example)

text \<open>
  A since filter over an index that holds a numeric timestamp: the comparison of the
  second guard raises TypeError out of \<open>search\<close>.
\<close>

lemma epoch_search_since_raises:
  "fst (search example_env (Some epoch_index) ''deployment'' 10 None (Some ''2026-02-01'') None) =
     Inl TypeError"
  by (simp add: search_def load_index_def example_env_def epoch_index_def search_loaded_def
      skipped_def truthy_str_def less_than_str_def Let_def note_entry_def epoch_entry_def
      argsort_epoch)

lemma example_requested_ids:
  "requested_ids ''0123456789ab, a1b2c3d4e5f6'' = [''0123456789ab'', ''a1b2c3d4e5f6'']"
  by (simp add: requested_ids_def strip_def is_space_def)

lemma example_get_by_ids:
  "get_by_ids (Some example_index) ''0123456789ab, a1b2c3d4e5f6'' =
     Inr [make_result note_entry 1, make_result skill_entry 1]"
  by (simp add: get_by_ids_def load_index_def example_requested_ids example_index_def
      note_entry_def fact_entry_def skill_entry_def id_in_def)

text \<open>
  Claim C1 (search returns at most \<open>limit\<close> results, in non-increasing relevance). The
  \<open>break\<close> test follows the append, so a search with \<open>limit = 0\<close> over an index with a
  matching entry returns one result. For \<open>limit \<ge> 1\<close> the bound holds
  (\<open>search_loaded_at_most\<close>), and the relevance order holds for every limit
  (\<open>search_loaded_relevance\<close>).
\<close>

theorem search_limit_zero_returns_one:
  "fst (search example_env (Some example_index) ''deployment'' 0 None None None) =
     Inr [make_result note_entry (3 / 4)]"
  by (simp add: example_search_limit_zero)

text \<open>
  Claim C2 as stated fails in three places: an entity filter given as the empty string
  mismatches every entry and skips none; an entry whose timestamp is the empty string is
  lexically less than any non-empty since value and is kept; and with \<open>limit = 0\<close> one
  matching result is returned.
\<close>

theorem search_filter_counterexample:
  "fst (search example_env (Some example_index) ''deployment'' 10 None None (Some [])) =
     Inr [make_result note_entry (3 / 4), make_result fact_entry (1 / 2),
          make_result skill_entry (1 / 4)]
   \<and> e_entity fact_entry \<noteq> Some []
   \<and> fst (search example_env (Some example_index) ''deployment'' 10 None (Some ''2026-02-01'') None) =
     Inr [make_result fact_entry (1 / 2), make_result skill_entry (1 / 4)]
   \<and> e_timestamp fact_entry = JStr [] \<and> ([] :: string) < ''2026-02-01''
   \<and> length [make_result note_entry (3 / 4)] > 0
   \<and> fst (search example_env (Some example_index) ''deployment'' 0 None None None) =
     Inr [make_result note_entry (3 / 4)]"
  by (simp add: example_search_empty_entity example_search_since example_search_limit_zero
      fact_entry_def)

text \<open>
  Claim C2, amended. On a loaded index with no more scores than entries, with
  \<open>limit \<ge> 1\<close>, and, when a since filter is given, with every stored timestamp a string or
  a value that counts as false (the declared \<open>Optional[str]\<close>; the comparison with another
  value raises, \<open>epoch_search_since_raises\<close>), the search returns the first \<open>limit\<close>
  entries of the ranked list that pass the filters, in rank order, where a filter counts
  only when it is a non-empty string: a given layer or entity rejects the entries that
  differ from it, and a given since rejects exactly the entries whose timestamp is a
  non-empty string lexically less than since. Filtering follows ranking, so the limit
  counts matches.
\<close>

theorem search_first_matches_in_rank_order:
  assumes "load_index st = Some ix" and "has_sklearn ev"
    and "length (ix_similarities ix query) \<le> length (ix_entries ix)"
    and "1 \<le> limit"
    and "filter_given since \<longrightarrow> list_all (\<lambda>e. text_or_absent (e_timestamp e)) (ix_entries ix)"
  shows "search ev st query limit layer since entity =
     (Inr (take (nat limit)
            (map (ranked_result ix query)
               (filter (\<lambda>i. passes_filters layer since entity (ix_entries ix ! i))
                  (rev (argsort (ix_similarities ix query)))))), st)"
proof -
  let ?sims = "ix_similarities ix query"
  have inb: "\<forall>i \<in> set (rev (argsort ?sims)). i < length (ix_entries ix)
      \<and> skipped layer since entity (ix_entries ix ! i)
          = Inr (\<not> passes_filters layer since entity (ix_entries ix ! i))"
  proof
    fix i assume "i \<in> set (rev (argsort ?sims))"
    with assms(3) have i: "i < length (ix_entries ix)" by (auto simp: set_argsort)
    with assms(5) have "filter_given since \<longrightarrow> text_or_absent (e_timestamp (ix_entries ix ! i))"
      by (auto simp: list_all_iff)
    from skipped_iff_not_passes[OF this] i
    show "i < length (ix_entries ix)
      \<and> skipped layer since entity (ix_entries ix ! i)
          = Inr (\<not> passes_filters layer since entity (ix_entries ix ! i))" by simp
  qed
  have "search_loaded ix query limit layer since entity =
      Inr (take (nat limit)
            (map (ranked_result ix query)
               (filter (\<lambda>i. passes_filters layer since entity (ix_entries ix ! i))
                  (rev (argsort ?sims)))))"
    using scan_take[OF inb, of "[]" limit ?sims] assms(4)
    by (simp add: search_loaded_def Let_def ranked_result_def[abs_def])
  with assms(1,2) show ?thesis
    by (simp add: search_def load_index_def)
qed

theorem search_first_matches_in_rank_order_witness:
  "load_index (Some example_index) = Some example_index \<and> has_sklearn example_env
   \<and> length (ix_similarities example_index ''deployment'') \<le> length (ix_entries example_index)
   \<and> (1::int) \<le> 1
   \<and> filter_given (Some ''2026-02-01'')
   \<and> list_all (\<lambda>e. text_or_absent (e_timestamp e)) (ix_entries example_index)
   \<and> take (nat 1)
        (map (ranked_result example_index ''deployment'')
           (filter (\<lambda>i. passes_filters None (Some ''2026-02-01'') None (ix_entries example_index ! i))
              (rev (argsort (ix_similarities example_index ''deployment'')))))
      = [make_result fact_entry (1 / 2)]"
proof -
  have h1: "load_index (Some example_index) = Some example_index" by (simp add: load_index_def)
  have h2: "has_sklearn example_env" by (simp add: example_env_def)
  have h3: "length (ix_similarities example_index ''deployment'') \<le> length (ix_entries example_index)"
    by (simp add: example_index_def)
  have h4: "(1::int) \<le> 1" by simp
  have h5: "list_all (\<lambda>e. text_or_absent (e_timestamp e)) (ix_entries example_index)"
    by (simp add: example_index_def text_or_absent_def note_entry_def fact_entry_def
        skill_entry_def)
  then have h5': "filter_given (Some ''2026-02-01'')
      \<longrightarrow> list_all (\<lambda>e. text_or_absent (e_timestamp e)) (ix_entries example_index)" by simp
  have h6: "filter_given (Some ''2026-02-01'')" by (simp add: filter_given_def)
  from search_first_matches_in_rank_order[OF h1 h2 h3 h4 h5', of None None]
    example_search_since_limit
  have "take (nat 1)
        (map (ranked_result example_index ''deployment'')
           (filter (\<lambda>i. passes_filters None (Some ''2026-02-01'') None (ix_entries example_index ! i))
              (rev (argsort (ix_similarities example_index ''deployment'')))))
      = [make_result fact_entry (1 / 2)]" by simp
  with h1 h2 h3 h4 h5 h6 show ?thesis by blast
qed

text \<open>
  Claim C3. With a loaded index, the direct lookup returns exactly the entries whose id is
  among the requested ids, each with relevance 1, in the order of the entries sequence;
  when no requested id occurs in the index the result is empty.
\<close>

theorem get_by_ids_storage_order:
  assumes "load_index st = Some ix"
  shows "\<exists>rs. get_by_ids st ids = Inr rs
     \<and> rs = map (\<lambda>e. make_result e 1)
              (filter (\<lambda>e. e_id e \<in> JStr ` set (requested_ids ids)) (ix_entries ix))
     \<and> map r_id rs = filter (\<lambda>i. i \<in> JStr ` set (requested_ids ids)) (map e_id (ix_entries ix))
     \<and> (\<forall>r \<in> set rs. r_relevance r = 1)
     \<and> (JStr ` set (requested_ids ids) \<inter> e_id ` set (ix_entries ix) = {} \<longrightarrow> rs = [])"
proof -
  let ?rs = "map (\<lambda>e. make_result e 1)
              (filter (\<lambda>e. e_id e \<in> JStr ` set (requested_ids ids)) (ix_entries ix))"
  have 1: "get_by_ids st ids = Inr ?rs"
    using assms by (simp add: get_by_ids_def lookup_loop_filter)
  have 2: "map r_id ?rs = filter (\<lambda>i. i \<in> JStr ` set (requested_ids ids)) (map e_id (ix_entries ix))"
    by (simp add: filter_map comp_def make_result_def)
  have 3: "\<forall>r \<in> set ?rs. r_relevance r = 1"
    by (auto simp: make_result_def)
  have 4: "JStr ` set (requested_ids ids) \<inter> e_id ` set (ix_entries ix) = {} \<longrightarrow> ?rs = []"
    by (auto simp: filter_empty_conv)
  from 1 2 3 4 show ?thesis by blast
qed

theorem get_by_ids_storage_order_witness:
  "load_index (Some example_index) = Some example_index
   \<and> get_by_ids (Some example_index) ''0123456789ab, a1b2c3d4e5f6'' =
        Inr [make_result note_entry 1, make_result skill_entry 1]
   \<and> get_by_ids (Some example_index) ''nosuchid'' = Inr []"
  using get_by_ids_storage_order[of "Some example_index" example_index "''0123456789ab, a1b2c3d4e5f6''"]
    get_by_ids_storage_order[of "Some example_index" example_index "''nosuchid''"]
  by (simp add: example_get_by_ids load_index_def get_by_ids_def requested_ids_def strip_def
      is_space_def example_index_def note_entry_def fact_entry_def skill_entry_def id_in_def)

lemma example_collectors_empty:
  "index_daily_notes example_env = [] \<and> index_tacit_knowledge example_env = []
   \<and> index_knowledge_graph example_env = [] \<and> index_tools example_env = []"
  by (simp add: index_daily_notes_def index_tacit_knowledge_def index_knowledge_graph_def
      index_tools_def example_env_def area_types_def)

lemma example_index_all_empty: "index_all example_env None = Inr (0, None)"
  using example_collectors_empty by (simp add: index_all_def Let_def)

lemma example_search_no_index:
  "search example_env None ''deployment'' 10 None None None = (Inl AttributeError, None)"
  by (simp add: search_def load_index_def example_index_all_empty) (simp add: example_env_def)

text \<open>
  Claim C6 (a missing index is built on first use, and an empty build is reported as an
  explicit outcome, never as an uncaught exception). With no persisted index and no
  entries to collect, \<open>index_all\<close> returns 0 and saves nothing; \<open>search\<close> ignores the
  count, the second load fails too, and \<open>self.indexer.vectorizer.transform\<close> raises
  AttributeError out of \<open>search\<close>.
\<close>

theorem search_missing_index_empty_build_raises:
  "load_index None = None \<and> index_all example_env None = Inr (0, None)
   \<and> fst (search example_env None ''deployment'' 10 None None None) = Inl AttributeError"
  by (simp add: example_search_no_index example_index_all_empty load_index_def)

lemma get_by_ids_members:
  assumes "get_by_ids st ids = Inr rs" and "r \<in> set rs"
  shows "\<exists>e \<in> set (stored_entries st). reports_entry e r"
proof (cases st)
  case None
  with assms show ?thesis by (simp add: get_by_ids_def load_index_def)
next
  case (Some ix)
  with assms have "r \<in> (\<lambda>e. make_result e 1) ` set (ix_entries ix)"
    by (auto simp: get_by_ids_def load_index_def lookup_loop_filter)
  then obtain e where "e \<in> set (ix_entries ix)" "r = make_result e 1" by blast
  with Some show ?thesis using make_result_reports by (auto simp: stored_entries_def)
qed

lemma search_members:
  assumes "fst (search ev st query limit layer since entity) = Inr rs" and "r \<in> set rs"
  shows "\<exists>e \<in> set (stored_entries (snd (search ev st query limit layer since entity))).
           reports_entry e r"
proof -
  obtain st' where s: "search ev st query limit layer since entity = (Inr rs, st')"
    using assms(1) by (cases "search ev st query limit layer since entity") simp
  from search_returns_loaded[OF s] obtain ix where
    "st' = Some ix" "search_loaded ix query limit layer since entity = Inr rs" by blast
  with search_loaded_members[OF this(2) assms(2)] s show ?thesis
    by (simp add: stored_entries_def)
qed

text \<open>
  Claim C10. Every result record returned by \<open>search\<close> and by the direct lookup reports
  an entry of the index in use, and its \<open>timestamp\<close>, \<open>entity\<close> and \<open>category\<close> metadata
  are never null: each is the entry's stored value when there is one, and the empty
  string when there is none. (A stored value outside the declared \<open>Optional[str]\<close> that
  counts as false, such as the number 0, is reported as the empty string as well.)
\<close>

theorem result_optional_fields_coerced:
  "(fst (search ev st query limit layer since entity) = Inr rs \<longrightarrow>
      (\<forall>r \<in> set rs. \<exists>e \<in> set (stored_entries (snd (search ev st query limit layer since entity))).
         reports_entry e r))
   \<and> (get_by_ids st ids = Inr rs' \<longrightarrow>
        (\<forall>r \<in> set rs'. \<exists>e \<in> set (stored_entries st). reports_entry e r))"
  using search_members get_by_ids_members by blast

theorem result_optional_fields_coerced_witness:
  "fst (search example_env (Some example_index) ''deployment'' 10 None None None) =
     Inr [make_result note_entry (3 / 4), make_result fact_entry (1 / 2),
          make_result skill_entry (1 / 4)]
   \<and> get_by_ids (Some example_index) ''0123456789ab, a1b2c3d4e5f6'' =
        Inr [make_result note_entry 1, make_result skill_entry 1]
   \<and> (\<exists>e \<in> set (stored_entries (Some example_index)).
          reports_entry e (make_result fact_entry (1 / 2)))
   \<and> (\<exists>e \<in> set (stored_entries (Some example_index)).
          reports_entry e (make_result skill_entry 1))
   \<and> m_timestamp (r_metadata (make_result skill_entry 1)) = JStr []
   \<and> m_entity (r_metadata (make_result note_entry 1)) = []
   \<and> m_timestamp (r_metadata (make_result note_entry 1)) = JStr ''2026-01-30''"
  using result_optional_fields_coerced[of example_env "Some example_index" "''deployment''" 10
      None None None
      "[make_result note_entry (3 / 4), make_result fact_entry (1 / 2), make_result skill_entry (1 / 4)]"
      "''0123456789ab, a1b2c3d4e5f6''" "[make_result note_entry 1, make_result skill_entry 1]"]
  by (simp add: example_search_all example_get_by_ids make_result_def or_empty_def
      or_empty_str_def note_entry_def skill_entry_def)


section \<open>Properties of the entry id\<close>

lemma geometric_bound: "(\<Sum>i\<le>n. (256::nat) ^ i) < 256 ^ Suc n"
  by (induction n) simp_all

lemma card_strings_eq: "card {s :: string. length s = n} = 256 ^ n"
  using card_lists_length_eq[of "UNIV :: char set" n] by (simp add: card_UNIV_char)

lemma finite_short: "finite {s :: string. length s \<le> n}"
  using finite_lists_length_le[of "UNIV :: char set" n] by simp

lemma card_short: "card {s :: string. length s \<le> 12} < 256 ^ Suc 12"
proof -
  have "card {s :: string. length s \<le> 12} = (\<Sum>i\<le>12. 256 ^ i)"
    using card_lists_length_le[of "UNIV :: char set" 12] by (simp add: card_UNIV_char)
  also have "\<dots> < 256 ^ Suc 12" by (rule geometric_bound)
  finally show ?thesis .
qed

lemma generate_id_not_injective:
  "\<exists>c1 c2. take 200 c1 \<noteq> take 200 c2 \<and> generate_id digest c1 src = generate_id digest c2 src"
proof -
  let ?A = "{s :: string. length s = Suc 12}"
  let ?f = "\<lambda>c. generate_id digest c src"
  have "?f ` ?A \<subseteq> {s. length s \<le> 12}" by (auto simp: generate_id_def)
  then have "card (?f ` ?A) \<le> card {s :: string. length s \<le> 12}"
    by (rule card_mono[OF finite_short])
  also have "\<dots> < card ?A" using card_short by (simp add: card_strings_eq)
  finally have "\<not> inj_on ?f ?A" by (rule pigeonhole)
  then obtain c1 c2 where "c1 \<in> ?A" "c2 \<in> ?A" "c1 \<noteq> c2" "?f c1 = ?f c2"
    by (auto simp: inj_on_def)
  then have "take 200 c1 \<noteq> take 200 c2 \<and> ?f c1 = ?f c2" by simp
  then show ?thesis by blast
qed

text \<open>
  Claim C4 as stated fails in the direction from equal ids to equal prefixes: an id has at
  most 12 characters, so whatever digest function is used, two contents with different
  200-character prefixes share an id for the same source.
\<close>

theorem generate_id_iff_counterexample:
  "\<not> (\<exists>digest. \<forall>src c1 c2.
         (generate_id digest c1 src = generate_id digest c2 src) = (take 200 c1 = take 200 c2))"
proof
  assume "\<exists>digest. \<forall>src c1 c2.
         (generate_id digest c1 src = generate_id digest c2 src) = (take 200 c1 = take 200 c2)"
  then obtain digest where
    iff: "\<And>src c1 c2. (generate_id digest c1 src = generate_id digest c2 src)
                        = (take 200 c1 = take 200 c2)" by blast
  from generate_id_not_injective[of digest "[]"] obtain c1 c2 where
    "take 200 c1 \<noteq> take 200 c2" "generate_id digest c1 [] = generate_id digest c2 []" by blast
  with iff show False by simp
qed

text \<open>
  Claim C4, amended. \<open>generate_id\<close> depends on the content only through its first 200
  characters; for one source, equal 200-character prefixes give equal ids; and the
  converse holds exactly up to collisions of the truncated digest: whenever the first 12
  characters of the digest tell the two hashed strings \<open>source:prefix\<close> apart, the ids are
  equal if and only if the prefixes are.
\<close>

theorem generate_id_prefix_determines_id:
  "generate_id digest content source = generate_id digest (take 200 content) source
   \<and> (take 200 c1 = take 200 c2 \<longrightarrow>
        generate_id digest c1 source = generate_id digest c2 source)
   \<and> (inj_on (\<lambda>hash_input. take 12 (digest hash_input))
          {source @ '':'' @ take 200 c1, source @ '':'' @ take 200 c2} \<longrightarrow>
        (generate_id digest c1 source = generate_id digest c2 source
           \<longleftrightarrow> take 200 c1 = take 200 c2))"
proof -
  have 1: "generate_id digest content source = generate_id digest (take 200 content) source"
    by (simp add: generate_id_def)
  have 2: "take 200 c1 = take 200 c2 \<longrightarrow>
        generate_id digest c1 source = generate_id digest c2 source"
    by (simp add: generate_id_def)
  have 3: "inj_on (\<lambda>hash_input. take 12 (digest hash_input))
          {source @ '':'' @ take 200 c1, source @ '':'' @ take 200 c2} \<longrightarrow>
        (generate_id digest c1 source = generate_id digest c2 source
           \<longleftrightarrow> take 200 c1 = take 200 c2)"
  proof
    assume inj: "inj_on (\<lambda>hash_input. take 12 (digest hash_input))
          {source @ '':'' @ take 200 c1, source @ '':'' @ take 200 c2}"
    show "generate_id digest c1 source = generate_id digest c2 source
           \<longleftrightarrow> take 200 c1 = take 200 c2"
    proof
      assume "generate_id digest c1 source = generate_id digest c2 source"
      then have "take 12 (digest (source @ '':'' @ take 200 c1))
               = take 12 (digest (source @ '':'' @ take 200 c2))"
        by (simp add: generate_id_def)
      from inj_onD[OF inj this]
      have "source @ '':'' @ take 200 c1 = source @ '':'' @ take 200 c2" by simp
      then show "take 200 c1 = take 200 c2" by simp
    next
      assume "take 200 c1 = take 200 c2"
      then show "generate_id digest c1 source = generate_id digest c2 source"
        by (simp add: generate_id_def)
    qed
  qed
  from 1 2 3 show ?thesis by blast
qed


lemma rev_digest_distinct:
  "inj_on (\<lambda>hash_input. take 12 (rev hash_input))
     {''memory/2026-01-30.md'' @ '':'' @ take 200 ''first'',
      ''memory/2026-01-30.md'' @ '':'' @ take 200 ''second''}"
  by (rule inj_onI) auto

theorem generate_id_prefix_determines_id_witness:
  "take 200 (replicate 200 CHR ''a'' @ ''first'') = take 200 (replicate 200 CHR ''a'' @ ''second'')
   \<and> generate_id rev (replicate 200 CHR ''a'' @ ''first'') ''memory/2026-01-30.md''
     = generate_id rev (replicate 200 CHR ''a'' @ ''second'') ''memory/2026-01-30.md''
   \<and> inj_on (\<lambda>hash_input. take 12 (rev hash_input))
        {''memory/2026-01-30.md'' @ '':'' @ take 200 ''first'',
         ''memory/2026-01-30.md'' @ '':'' @ take 200 ''second''}
   \<and> take 200 ''first'' \<noteq> take 200 ''second''
   \<and> generate_id rev ''first'' ''memory/2026-01-30.md''
       \<noteq> generate_id rev ''second'' ''memory/2026-01-30.md''"
proof -
  have a: "take 200 (replicate 200 CHR ''a'' @ ''first'')
         = take 200 (replicate 200 CHR ''a'' @ ''second'')" by simp
  note t1 = generate_id_prefix_determines_id[of rev "[]" "''memory/2026-01-30.md''"
      "replicate 200 CHR ''a'' @ ''first''" "replicate 200 CHR ''a'' @ ''second''"]
  from t1 have "take 200 (replicate 200 CHR ''a'' @ ''first'')
         = take 200 (replicate 200 CHR ''a'' @ ''second'') \<longrightarrow>
     generate_id rev (replicate 200 CHR ''a'' @ ''first'') ''memory/2026-01-30.md''
     = generate_id rev (replicate 200 CHR ''a'' @ ''second'') ''memory/2026-01-30.md''"
    by (rule conjunct1[OF conjunct2])
  with a have b: "generate_id rev (replicate 200 CHR ''a'' @ ''first'') ''memory/2026-01-30.md''
     = generate_id rev (replicate 200 CHR ''a'' @ ''second'') ''memory/2026-01-30.md''"
    by (rule rev_mp)
  have c: "take 200 ''first'' \<noteq> take 200 ''second''" by simp
  note t2 = generate_id_prefix_determines_id[of rev "[]" "''memory/2026-01-30.md''"
      "''first''" "''second''"]
  from t2 have "inj_on (\<lambda>hash_input. take 12 (rev hash_input))
        {''memory/2026-01-30.md'' @ '':'' @ take 200 ''first'',
         ''memory/2026-01-30.md'' @ '':'' @ take 200 ''second''} \<longrightarrow>
      (generate_id rev ''first'' ''memory/2026-01-30.md''
         = generate_id rev ''second'' ''memory/2026-01-30.md''
       \<longleftrightarrow> take 200 ''first'' = take 200 ''second'')"
    by (rule conjunct2[OF conjunct2])
  with rev_digest_distinct
  have "generate_id rev ''first'' ''memory/2026-01-30.md''
         = generate_id rev ''second'' ''memory/2026-01-30.md''
       \<longleftrightarrow> take 200 ''first'' = take 200 ''second''"
    by (rule rev_mp)
  with c have d: "generate_id rev ''first'' ''memory/2026-01-30.md''
       \<noteq> generate_id rev ''second'' ''memory/2026-01-30.md''"
    by blast
  from a b rev_digest_distinct c d show ?thesis by (intro conjI)
qed


section \<open>Properties of the index build\<close>


















section \<open>Evaluations on the example files\<close>

lemma parse_jan31: "parse_iso_date ''2026-01-31'' = Some 63905414400000000"
  by code_simp

lemma shift_before: "shift_hours (Naive 63905414400000000) (- 24) = Inr (Naive 63905328000000000)"
  by code_simp

lemma shift_after: "shift_hours (Naive 63905414400000000) 24 = Inr (Naive 63905500800000000)"
  by code_simp

lemma format_before: "format_iso_date 63905328000000000 = ''2026-01-30''"
  by code_simp

lemma format_after: "format_iso_date 63905500800000000 = ''2026-02-01''"
  by code_simp

lemma resolve_jan31:
  "resolve_anchor iso_lib ev st None (Some ''2026-01-31'') None =
     (Inr (Anchor (Some (Naive 63905414400000000)) None), st)"
  by (simp add: resolve_anchor_def truthy_str_def iso_lib_def parse_jan31)

lemma scenario_timeline:
  "fst (get_timeline iso_lib example_env scenario_files None None (Some ''2026-01-31'') None 24 24) =
     Inr (Timeline
       \<lparr>tl_anchor = None, tl_time_window = jan_window,
        tl_events =
          [\<lparr>ev_date = JStr ''2026-01-30'', ev_type = ''daily_note'',
            ev_event = JStr ''Discussed deployment plan'', ev_file = ''memory/2026-01-30.md'',
            ev_entity = None\<rparr>,
           \<lparr>ev_date = JStr ''2026-02-01'', ev_type = ''daily_note'',
            ev_event = JStr ''Fixed the bug'', ev_file = ''memory/2026-02-01.md'',
            ev_entity = None\<rparr>]\<rparr>)"
  by code_simp

lemma list_timeline:
  "fst (get_timeline iso_lib example_env list_files None None (Some ''2026-01-31'') None 24 24) =
     Inr (Timeline
       \<lparr>tl_anchor = None, tl_time_window = jan_window,
        tl_events =
          [\<lparr>ev_date = JStr ''2026-03-01'', ev_type = ''knowledge_graph'',
            ev_event = JStr ''Alice joined the team'',
            ev_file = ''life/areas/people/Alice/items.json'', ev_entity = Some ''Alice''\<rparr>]\<rparr>)"
  by code_simp

lemma dict_timeline:
  "fst (get_timeline iso_lib example_env dict_files None None (Some ''2026-01-31'') None 24 24) =
     Inr (Timeline \<lparr>tl_anchor = None, tl_time_window = jan_window, tl_events = []\<rparr>)"
  by code_simp

lemma resolve_skill_id:
  "fst (resolve_anchor iso_lib example_env (Some example_index) (Some ''mem-0123456789ab'') None None)
     = Inr (Anchor None (Some (EntryContext (JStr ''Deployment skill'') ''tools/deploy/SKILL.md'' JNull)))"
  by code_simp


section \<open>Properties of the timeline\<close>

lemma get_timeline_unresolved:
  assumes "anchor_instant (fst (resolve_anchor lib ev st memory_id date query)) = None"
  shows "(\<forall>tline. fst (get_timeline lib ev fs st memory_id date query hours_before hours_after)
              \<noteq> Inr (Timeline tline))
     \<and> ((\<forall>err. fst (resolve_anchor lib ev st memory_id date query) \<noteq> Inl err) \<longrightarrow>
          fst (get_timeline lib ev fs st memory_id date query hours_before hours_after)
            = Inr EmptyDict)"
proof (cases "resolve_anchor lib ev st memory_id date query")
  case (Pair r st')
  show ?thesis
  proof (cases r)
    case (Inl err)
    with Pair show ?thesis by (simp add: get_timeline_def)
  next
    case (Inr res)
    show ?thesis
    proof (cases res)
      case EarlyReturn
      with Pair Inr show ?thesis by (simp add: get_timeline_def)
    next
      case (Anchor t ctx)
      with assms Pair Inr have "t = None" by (cases t) (simp_all add: anchor_instant_def)
      with Pair Inr Anchor show ?thesis by (simp add: get_timeline_def)
    qed
  qed
qed

text \<open>What a call that returns a timeline has gathered and sorted.\<close>

lemma get_timeline_returned:
  assumes "resolve_anchor lib ev st memory_id date query
             = (Inr (Anchor (Some anchor_time) ctx), st')"
    and "shift_hours anchor_time (- hours_before) = Inr lo"
    and "shift_hours anchor_time hours_after = Inr hi"
    and "fst (get_timeline lib ev fs st memory_id date query hours_before hours_after)
           = Inr (Timeline tline)"
  shows "\<exists>daily facts.
      daily_note_events fs (strftime_ymd lib (wall_clock lo)) (strftime_ymd lib (wall_clock hi))
        = Inr daily
      \<and> knowledge_graph_events fs lo hi = Inr facts
      \<and> sort_events (daily @ facts) = Inr (tl_events tline)
      \<and> tw_start (tl_time_window tline) = strftime_ymd lib (wall_clock lo)
      \<and> tw_end (tl_time_window tline) = strftime_ymd lib (wall_clock hi)"
proof -
  let ?s = "strftime_ymd lib (wall_clock lo)" and ?e = "strftime_ymd lib (wall_clock hi)"
  obtain daily where d: "daily_note_events fs ?s ?e = Inr daily"
    using assms by (cases "daily_note_events fs ?s ?e") (simp_all add: get_timeline_def Let_def)
  obtain facts where k: "knowledge_graph_events fs lo hi = Inr facts"
    using assms d by (cases "knowledge_graph_events fs lo hi") (simp_all add: get_timeline_def Let_def)
  obtain sorted where s: "sort_events (daily @ facts) = Inr sorted"
    using assms d k by (cases "sort_events (daily @ facts)") (simp_all add: get_timeline_def Let_def)
  from assms d k s have "tline = \<lparr>tl_anchor = ctx,
       tl_time_window = \<lparr>tw_start = ?s, tw_end = ?e,
                         tw_hours_before = hours_before, tw_hours_after = hours_after\<rparr>,
       tl_events = sorted\<rparr>"
    by (simp add: get_timeline_def Let_def)
  with d k s show ?thesis by simp
qed

lemma set_insert_event: "set (insert_event x ys) = insert x (set ys)"
  by (induction ys) auto

lemma set_sorted_events: "set (foldr insert_event xs []) = set xs"
  by (induction xs) (simp_all add: set_insert_event)

text \<open>The sort is stable: events that share a sort key keep their order.\<close>

lemma filter_insert_event:
  assumes "\<forall>y \<in> set ys. P y \<longrightarrow> sort_key_date y = k" and "P x \<longrightarrow> sort_key_date x = k"
    and "py_lt k k = Inr False"
  shows "filter P (insert_event x ys) = (if P x then x # filter P ys else filter P ys)"
  using assms(1)
proof (induction ys)
  case Nil
  then show ?case by simp
next
  case (Cons y ys)
  then have ih: "filter P (insert_event x ys) = (if P x then x # filter P ys else filter P ys)"
    by simp
  show ?case
  proof (cases "py_lt (sort_key_date y) (sort_key_date x) = Inr True")
    case True
    have "\<not> (P x \<and> P y)"
    proof
      assume "P x \<and> P y"
      with Cons.prems assms(2) have "sort_key_date y = k" "sort_key_date x = k" by simp_all
      with True assms(3) show False by simp
    qed
    with True ih show ?thesis by auto
  next
    case False
    then show ?thesis by simp
  qed
qed

lemma filter_sorted_events:
  assumes "\<forall>y \<in> set xs. P y \<longrightarrow> sort_key_date y = k" and "py_lt k k = Inr False"
  shows "filter P (foldr insert_event xs []) = filter P xs"
  using assms(1)
proof (induction xs)
  case Nil
  then show ?case by simp
next
  case (Cons x xs)
  then have ih: "filter P (foldr insert_event xs []) = filter P xs" by simp
  have "filter P (insert_event x (foldr insert_event xs []))
      = (if P x then x # filter P (foldr insert_event xs []) else filter P (foldr insert_event xs []))"
    using Cons.prems by (intro filter_insert_event[OF _ _ assms(2)]) (simp_all add: set_sorted_events)
  with ih show ?case by simp
qed

lemma concat_single:
  "distinct fl \<Longrightarrow> f \<in> set fl \<Longrightarrow>
   concat (map (\<lambda>g. if g = f then A else []) fl) = A"
proof (induction fl)
  case Nil
  then show ?case by simp
next
  case (Cons a fl)
  show ?case
  proof (cases "a = f")
    case True
    with Cons.prems have "f \<notin> set fl" by simp
    then have "concat (map (\<lambda>g. if g = f then A else []) fl) = []" by (induction fl) auto
    with True show ?thesis by simp
  next
    case False
    with Cons show ?thesis by simp
  qed
qed

lemma md_path_inject: "md_path fs f = md_path fs g \<longleftrightarrow> df_stem f = df_stem g"
  by (simp add: md_path_def)

lemma file_events_props:
  "e \<in> set (file_events fs g) \<Longrightarrow>
   ev_type e = ''daily_note'' \<and> ev_file e = md_path fs g \<and> ev_date e = JStr (df_stem g)"
  by (auto simp: file_events_def split: option.splits)

lemma kg_file_events_props:
  "e \<in> set (item_events g items) \<Longrightarrow> ev_type e = ''knowledge_graph'' \<and> ev_file e = kf_path g"
  by (induction items) (auto simp: fact_event_def split: json.splits)

lemma kg_events_type:
  "knowledge_graph_events fs lo hi = Inr facts \<Longrightarrow> e \<in> set facts \<Longrightarrow>
   ev_type e = ''knowledge_graph''"
  by (auto simp: knowledge_graph_events_def kg_file_events_def
      dest: kg_file_events_props
      split: if_splits option.splits json.splits datetime.splits)

lemma filter_file_events:
  assumes "inj_on df_stem (set fl)" and "f \<in> set fl" and "g \<in> set fl"
  shows "filter (\<lambda>e. ev_type e = ''daily_note'' \<and> ev_file e = md_path fs f) (file_events fs g)
         = (if g = f then file_events fs f else [])"
proof (cases "g = f")
  case True
  then show ?thesis using file_events_props[of _ fs f] by (simp add: filter_id_conv)
next
  case False
  with assms have "df_stem g \<noteq> df_stem f" by (auto dest: inj_onD)
  then have "\<forall>e \<in> set (file_events fs g). ev_file e \<noteq> md_path fs f"
    using file_events_props[of _ fs g] by (auto simp: md_path_inject)
  with False show ?thesis by (simp add: filter_empty_conv)
qed

lemma filter_daily_note_events:
  assumes dist: "distinct (map df_stem (daily_files fs))"
    and f: "f \<in> set (daily_files fs)"
    and inwin: "in_date_range start_date end_date f"
    and run: "daily_note_events fs start_date end_date = Inr daily"
  shows "filter (\<lambda>e. ev_type e = ''daily_note'' \<and> ev_file e = md_path fs f) daily
           = file_events fs f"
proof -
  let ?P = "\<lambda>e. ev_type e = ''daily_note'' \<and> ev_file e = md_path fs f"
  let ?L = "sort_key (\<lambda>f. df_stem f @ ''.md'') (daily_files fs)"
  let ?h = "\<lambda>g. if in_date_range start_date end_date g then file_events fs g else []"
  from run have daily: "daily = concat (map ?h ?L)"
    by (simp add: daily_note_events_def split: if_splits)
  from dist have inj: "inj_on df_stem (set (daily_files fs))" and d: "distinct (daily_files fs)"
    by (simp_all add: distinct_map)
  have dL: "distinct ?L" using d by simp
  have fL: "f \<in> set ?L" using f by simp
  have step: "\<And>g. g \<in> set ?L \<Longrightarrow> filter ?P (?h g) = (if g = f then file_events fs f else [])"
  proof -
    fix g assume "g \<in> set ?L"
    then have g: "g \<in> set (daily_files fs)" by simp
    show "filter ?P (?h g) = (if g = f then file_events fs f else [])"
      using filter_file_events[OF inj f g, of fs] inwin by auto
  qed
  have "filter ?P daily = concat (map (\<lambda>g. filter ?P (?h g)) ?L)"
    by (simp add: daily filter_concat comp_def)
  also have "\<dots> = concat (map (\<lambda>g. if g = f then file_events fs f else []) ?L)"
    using step by (intro arg_cong[where f = concat] map_cong) simp_all
  also have "\<dots> = file_events fs f" by (rule concat_single[OF dL fL])
  finally show ?thesis .
qed

lemma in_date_range_stem: "in_date_range start_date end_date f \<Longrightarrow> df_stem f \<noteq> []"
  by (auto simp: in_date_range_def)

text \<open>
  When the call returns a timeline, the \<open>daily_note\<close> events of a file in the date range
  are, in order, one event per line of the file that starts with \<open>##\<close>, each dated at the
  file's date.
\<close>

lemma daily_note_headlines_when_returned:
  assumes "resolve_anchor lib ev st memory_id date query
             = (Inr (Anchor (Some anchor_time) ctx), st')"
    and "shift_hours anchor_time (- hours_before) = Inr lo"
    and "shift_hours anchor_time hours_after = Inr hi"
    and "fst (get_timeline lib ev fs st memory_id date query hours_before hours_after)
           = Inr (Timeline tline)"
    and "distinct (map df_stem (daily_files fs))"
    and "f \<in> set (daily_files fs)"
    and "in_date_range (strftime_ymd lib (wall_clock lo)) (strftime_ymd lib (wall_clock hi)) f"
  shows "\<exists>content. df_content f = Some content
     \<and> filter (\<lambda>e. ev_type e = ''daily_note'' \<and> ev_file e = md_path fs f) (tl_events tline)
         = map (\<lambda>line. \<lparr>ev_date = JStr (df_stem f), ev_type = ''daily_note'',
                         ev_event = JStr (strip_chars ''# '' line), ev_file = md_path fs f,
                         ev_entity = None\<rparr>)
             (filter (\<lambda>line. take 2 line = ''##'') (split_on (CHR 0x0A) content))"
proof -
  let ?P = "\<lambda>e. ev_type e = ''daily_note'' \<and> ev_file e = md_path fs f"
  from get_timeline_returned[OF assms(1-4)] obtain daily facts where
    d: "daily_note_events fs (strftime_ymd lib (wall_clock lo)) (strftime_ymd lib (wall_clock hi))
          = Inr daily"
    and k: "knowledge_graph_events fs lo hi = Inr facts"
    and s: "sort_events (daily @ facts) = Inr (tl_events tline)" by blast
  from d assms(6,7) obtain content where c: "df_content f = Some content"
    by (cases "df_content f") (auto simp: daily_note_events_def list_ex_iff split: if_splits)
  from s have sorted: "tl_events tline = foldr insert_event (daily @ facts) []"
    by (simp add: sort_events_def split: if_splits)
  have fd: "filter ?P daily = file_events fs f"
    by (rule filter_daily_note_events[OF assms(5,6,7) d])
  have fk: "filter ?P facts = []"
    using kg_events_type[OF k] by (auto simp: filter_empty_conv)
  have stem: "df_stem f \<noteq> []" using assms(7) by (rule in_date_range_stem)
  have key: "\<forall>y \<in> set (daily @ facts). ?P y \<longrightarrow> sort_key_date y = JStr (df_stem f)"
  proof (intro ballI impI)
    fix y assume "y \<in> set (daily @ facts)" and py: "?P y"
    with fk have "y \<in> set (filter ?P daily)" by (auto simp: filter_empty_conv)
    with fd have "y \<in> set (file_events fs f)" by simp
    from file_events_props[OF this] stem show "sort_key_date y = JStr (df_stem f)"
      by (simp add: sort_key_date_def or_empty_def)
  qed
  have "filter ?P (tl_events tline) = filter ?P (daily @ facts)"
    unfolding sorted by (rule filter_sorted_events[OF key]) simp
  with fd fk have "filter ?P (tl_events tline) = file_events fs f" by simp
  with c show ?thesis by (simp add: file_events_def)
qed

text \<open>
  The call returns a timeline exactly when every file in the date range can be read, the
  anchor is naive or there is no \<open>items.json\<close>, and the sort keys can be compared.
\<close>

lemma get_timeline_returns_iff:
  assumes "resolve_anchor lib ev st memory_id date query
             = (Inr (Anchor (Some anchor_time) ctx), st')"
    and "shift_hours anchor_time (- hours_before) = Inr lo"
    and "shift_hours anchor_time hours_after = Inr hi"
  shows "(\<exists>tline. fst (get_timeline lib ev fs st memory_id date query hours_before hours_after)
                 = Inr (Timeline tline))
     \<longleftrightarrow> (\<exists>daily facts.
            daily_note_events fs (strftime_ymd lib (wall_clock lo)) (strftime_ymd lib (wall_clock hi))
              = Inr daily
            \<and> knowledge_graph_events fs lo hi = Inr facts
            \<and> pairwise_comparable (map sort_key_date (daily @ facts)))"
proof
  assume "\<exists>tline. fst (get_timeline lib ev fs st memory_id date query hours_before hours_after)
                 = Inr (Timeline tline)"
  then obtain tline where "fst (get_timeline lib ev fs st memory_id date query hours_before hours_after)
                 = Inr (Timeline tline)" by blast
  from get_timeline_returned[OF assms this] show "\<exists>daily facts.
            daily_note_events fs (strftime_ymd lib (wall_clock lo)) (strftime_ymd lib (wall_clock hi))
              = Inr daily
            \<and> knowledge_graph_events fs lo hi = Inr facts
            \<and> pairwise_comparable (map sort_key_date (daily @ facts))"
    by (auto simp: sort_events_def split: if_splits)
next
  assume "\<exists>daily facts.
            daily_note_events fs (strftime_ymd lib (wall_clock lo)) (strftime_ymd lib (wall_clock hi))
              = Inr daily
            \<and> knowledge_graph_events fs lo hi = Inr facts
            \<and> pairwise_comparable (map sort_key_date (daily @ facts))"
  with assms show "\<exists>tline. fst (get_timeline lib ev fs st memory_id date query hours_before hours_after)
                 = Inr (Timeline tline)"
    by (auto simp: get_timeline_def Let_def sort_events_def)
qed


text \<open>
  Claim C7. When none of the three resolution paths (id, date, query) determines an anchor
  instant, \<open>get_timeline\<close> never returns a timeline: it returns the empty dict, with no
  time window and no events, unless the resolution itself raised (the search of the query
  path, or \<open>len\<close> of a numeric timestamp), in which case nothing is returned at all.
\<close>

theorem unresolved_anchor_returns_empty:
  assumes "anchor_instant (fst (resolve_anchor lib ev st memory_id date query)) = None"
  shows "(\<forall>tl. fst (get_timeline lib ev fs st memory_id date query hours_before hours_after)
              \<noteq> Inr (Timeline tl))
     \<and> ((\<forall>err. fst (resolve_anchor lib ev st memory_id date query) \<noteq> Inl err) \<longrightarrow>
          fst (get_timeline lib ev fs st memory_id date query hours_before hours_after)
            = Inr EmptyDict)"
  using assms by (rule get_timeline_unresolved)

theorem unresolved_anchor_returns_empty_witness:
  "anchor_instant
     (fst (resolve_anchor iso_lib example_env (Some example_index) (Some ''mem-0123456789ab'')
             None None)) = None
   \<and> fst (get_timeline iso_lib example_env scenario_files (Some example_index)
            (Some ''mem-0123456789ab'') None None 24 24) = Inr EmptyDict"
proof -
  have h: "anchor_instant
     (fst (resolve_anchor iso_lib example_env (Some example_index) (Some ''mem-0123456789ab'')
             None None)) = None"
    by (simp add: resolve_skill_id anchor_instant_def)
  from unresolved_anchor_returns_empty[OF h, of scenario_files 24 24] resolve_skill_id
  have "fst (get_timeline iso_lib example_env scenario_files (Some example_index)
            (Some ''mem-0123456789ab'') None None 24 24) = Inr EmptyDict" by simp
  with h show ?thesis by simp
qed

lemma epoch_timeline:
  "fst (get_timeline iso_lib example_env epoch_files None None (Some ''2026-01-31'') None 24 24) =
     Inl TypeError"
  by code_simp

lemma epoch_daily:
  "daily_note_events epoch_files ''2026-01-30'' ''2026-02-01'' =
     Inr [\<lparr>ev_date = JStr ''2026-01-30'', ev_type = ''daily_note'',
            ev_event = JStr ''Discussed deployment plan'', ev_file = ''memory/2026-01-30.md'',
            ev_entity = None\<rparr>,
           \<lparr>ev_date = JStr ''2026-02-01'', ev_type = ''daily_note'',
            ev_event = JStr ''Fixed the bug'', ev_file = ''memory/2026-02-01.md'',
            ev_entity = None\<rparr>]"
  by code_simp

lemma epoch_facts:
  "knowledge_graph_events epoch_files (Naive 63905328000000000) (Naive 63905500800000000) =
     Inr [\<lparr>ev_date = JFloat (3539707201 / 2), ev_type = ''knowledge_graph'',
            ev_event = JStr ''Alice leads the deployment'',
            ev_file = ''life/areas/people/Alice/items.json'', ev_entity = Some ''Alice''\<rparr>]"
  by code_simp

lemma float_less_str: "py_lt (JFloat (3539707201 / 2)) (JStr ''2026-01-30'') = Inl TypeError"
  by (simp add: num_lt_def)

text \<open>
  Claim C8 (every sub-headline line of a daily note in the window appears as one
  \<open>daily_note\<close> event dated at the file's date). The sort that ends \<open>get_timeline\<close>
  compares the sort keys of all gathered events. \<open>sort_key\<close> turns an \<open>int\<close> date into a
  string, to handle Unix timestamps next to date strings, but returns a float as it is, and
  a float cannot be compared with the date strings of the daily notes. With the two daily
  notes of the scenario inside the window and one fact whose timestamp is the Unix time
  1769853600.5, both headlines are gathered, and the call raises TypeError: no event is
  returned. When the call returns, the claim holds
  (\<open>daily_note_headlines_when_returned\<close>).
\<close>

theorem fractional_epoch_fact_loses_headlines:
  "fst (get_timeline iso_lib example_env epoch_files None None (Some ''2026-01-31'') None 24 24) =
     Inl TypeError
   \<and> daily_note_events epoch_files ''2026-01-30'' ''2026-02-01'' =
     Inr [\<lparr>ev_date = JStr ''2026-01-30'', ev_type = ''daily_note'',
            ev_event = JStr ''Discussed deployment plan'', ev_file = ''memory/2026-01-30.md'',
            ev_entity = None\<rparr>,
           \<lparr>ev_date = JStr ''2026-02-01'', ev_type = ''daily_note'',
            ev_event = JStr ''Fixed the bug'', ev_file = ''memory/2026-02-01.md'',
            ev_entity = None\<rparr>]
   \<and> knowledge_graph_events epoch_files (Naive 63905328000000000) (Naive 63905500800000000) =
     Inr [\<lparr>ev_date = JFloat (3539707201 / 2), ev_type = ''knowledge_graph'',
            ev_event = JStr ''Alice leads the deployment'',
            ev_file = ''life/areas/people/Alice/items.json'', ev_entity = Some ''Alice''\<rparr>]
   \<and> py_lt (JFloat (3539707201 / 2)) (JStr ''2026-01-30'') = Inl TypeError"
  using epoch_timeline epoch_daily epoch_facts float_less_str by simp

text \<open>
  Claim C9 (the last five facts of every fact list modified inside the window become
  events, whether the file is a bare list or an object wrapping a list). For a bare list
  of records this holds (\<open>bare_list_last_five_facts\<close>). For an object, \<open>items[-5:]\<close> raises
  inside the \<open>try\<close> and the bare \<open>except\<close> drops the file: an \<open>items.json\<close> of the form
  \<open>{"items": [...]}\<close> modified inside the window contributes no event.
\<close>

theorem wrapped_fact_list_gives_no_events:
  "fst (get_timeline iso_lib example_env dict_files None None (Some ''2026-01-31'') None 24 24) =
     Inr (Timeline \<lparr>tl_anchor = None, tl_time_window = jan_window, tl_events = []\<rparr>)
   \<and> kf_items alice_dict_file = Some (JDict [(''items'', JList [alice_fact])])
   \<and> (63905328000000000 \<le> kf_mtime alice_dict_file
        \<and> kf_mtime alice_dict_file \<le> 63905500800000000)"
  using dict_timeline by (simp add: alice_dict_file_def)

lemma mset_insert_event: "mset (insert_event x ys) = add_mset x (mset ys)"
  by (induction ys) simp_all

lemma mset_sorted_events: "mset (foldr insert_event xs []) = mset xs"
  by (induction xs) (simp_all add: mset_insert_event)

lemma daily_events_type:
  "daily_note_events fs start_date end_date = Inr daily \<Longrightarrow> e \<in> set daily \<Longrightarrow>
   ev_type e = ''daily_note''"
  by (auto simp: daily_note_events_def dest: file_events_props split: if_splits)

lemma kg_file_events_file:
  "e \<in> set (kg_file_events g) \<Longrightarrow> ev_type e = ''knowledge_graph'' \<and> ev_file e = kf_path g"
  by (auto simp: kg_file_events_def dest: kg_file_events_props split: option.splits json.splits)

lemma filter_kg_events:
  assumes dist: "distinct (map kf_path (kg_files fs))"
    and g: "g \<in> set (kg_files fs)"
    and inwin: "l \<le> kf_mtime g" "kf_mtime g \<le> h"
    and run: "knowledge_graph_events fs (Naive l) (Naive h) = Inr facts"
  shows "filter (\<lambda>e. ev_type e = ''knowledge_graph'' \<and> ev_file e = kf_path g) facts
           = kg_file_events g"
proof -
  let ?P = "\<lambda>e. ev_type e = ''knowledge_graph'' \<and> ev_file e = kf_path g"
  let ?h = "\<lambda>f. if l \<le> kf_mtime f \<and> kf_mtime f \<le> h then kg_file_events f else []"
  from run g have facts: "facts = concat (map ?h (kg_files fs))"
    by (auto simp: knowledge_graph_events_def split: if_splits)
  from dist have inj: "inj_on kf_path (set (kg_files fs))" and d: "distinct (kg_files fs)"
    by (simp_all add: distinct_map)
  have step: "\<And>f. f \<in> set (kg_files fs) \<Longrightarrow>
      filter ?P (?h f) = (if f = g then kg_file_events g else [])"
  proof -
    fix f assume f: "f \<in> set (kg_files fs)"
    show "filter ?P (?h f) = (if f = g then kg_file_events g else [])"
    proof (cases "f = g")
      case True
      with inwin show ?thesis using kg_file_events_file[of _ g] by (simp add: filter_id_conv)
    next
      case False
      with inj f g have "kf_path f \<noteq> kf_path g" by (auto dest: inj_onD)
      then have "\<forall>e \<in> set (kg_file_events f). ev_file e \<noteq> kf_path g"
        using kg_file_events_file[of _ f] by auto
      with False show ?thesis by (simp add: filter_empty_conv)
    qed
  qed
  have "filter ?P facts = concat (map (\<lambda>f. filter ?P (?h f)) (kg_files fs))"
    by (simp add: facts filter_concat comp_def)
  also have "\<dots> = concat (map (\<lambda>f. if f = g then kg_file_events g else []) (kg_files fs))"
    using step by (intro arg_cong[where f = concat] map_cong) simp_all
  also have "\<dots> = kg_file_events g" by (rule concat_single[OF d g])
  finally show ?thesis .
qed

lemma item_events_dicts:
  "item_events g (map JDict ds) = map (fact_event g) ds"
  by (induction ds) simp_all

text \<open>
  For a bare list of records in a file modified inside the window, when the call returns
  a timeline, the events of the file are exactly its last five records, each dated by its
  own timestamp and tagged with the entity name.
\<close>

lemma bare_list_last_five_facts:
  assumes "resolve_anchor lib ev st memory_id date query
             = (Inr (Anchor (Some anchor_time) ctx), st')"
    and "shift_hours anchor_time (- hours_before) = Inr (Naive l)"
    and "shift_hours anchor_time hours_after = Inr (Naive h)"
    and "fst (get_timeline lib ev fs st memory_id date query hours_before hours_after)
           = Inr (Timeline tline)"
    and "distinct (map kf_path (kg_files fs))"
    and "g \<in> set (kg_files fs)"
    and "l \<le> kf_mtime g" and "kf_mtime g \<le> h"
    and "kf_items g = Some (JList (map JDict records))"
  shows "mset (filter (\<lambda>e. ev_type e = ''knowledge_graph'' \<and> ev_file e = kf_path g)
                 (tl_events tline))
         = mset (map (\<lambda>item. \<lparr>ev_date = dict_get item ''timestamp'' (JStr []),
                               ev_type = ''knowledge_graph'',
                               ev_event = dict_get item ''fact'' (JStr []),
                               ev_file = kf_path g,
                               ev_entity = Some (kf_entity g)\<rparr>)
                   (drop (length records - 5) records))"
proof -
  let ?P = "\<lambda>e. ev_type e = ''knowledge_graph'' \<and> ev_file e = kf_path g"
  from get_timeline_returned[OF assms(1-4)] obtain daily facts where
    d: "daily_note_events fs (strftime_ymd lib (wall_clock (Naive l)))
          (strftime_ymd lib (wall_clock (Naive h))) = Inr daily"
    and k: "knowledge_graph_events fs (Naive l) (Naive h) = Inr facts"
    and s: "sort_events (daily @ facts) = Inr (tl_events tline)" by blast
  from s have sorted: "tl_events tline = foldr insert_event (daily @ facts) []"
    by (simp add: sort_events_def split: if_splits)
  have fd: "filter ?P daily = []"
    using daily_events_type[OF d] by (auto simp: filter_empty_conv)
  have fk: "filter ?P facts = kg_file_events g"
    by (rule filter_kg_events[OF assms(5,6,7,8) k])
  have "kg_file_events g = item_events g (map JDict (drop (length records - 5) records))"
    using assms(9) by (simp add: kg_file_events_def drop_map)
  then have ke: "kg_file_events g = map (fact_event g) (drop (length records - 5) records)"
    by (simp add: item_events_dicts)
  have "mset (filter ?P (tl_events tline)) = filter_mset ?P (mset (daily @ facts))"
    unfolding sorted by (simp only: mset_filter mset_sorted_events)
  also have "\<dots> = mset (filter ?P daily) + mset (filter ?P facts)"
    by (simp only: mset_filter mset_append filter_union_mset)
  also have "\<dots> = mset (kg_file_events g)" by (simp only: fd fk) simp
  finally show ?thesis by (simp add: ke fact_event_def[abs_def])
qed


end
